theory Spec2Isabelle
  imports Main "HOL-Library.Word"
begin

section \<open>JavaScript values\<close>

text \<open>
  The adapter of \<^verbatim>\<open>src/lib.mjs\<close> handles values that come out of
  \<^verbatim>\<open>Response.json()\<close>: the manifest, the capability listings, the bodies of the
  upstream answers and the arguments of a request. They are JSON values.
  \<^item> A string is the list of its bytes in UTF-8.
  \<^item> A number is the string that \<^verbatim>\<open>String(n)\<close> returns for it, its canonical
    rendering: \<^verbatim>\<open>123\<close>, \<^verbatim>\<open>-1.5\<close>, \<^verbatim>\<open>1e+21\<close>, \<^verbatim>\<open>Infinity\<close> (what
    \<^verbatim>\<open>JSON.parse\<close> makes of \<^verbatim>\<open>1e999\<close>). Both zeros render as \<^verbatim>\<open>0\<close>. The adapter
    does two things with a number: it tests its truthiness and it renders it, and both
    are functions of this string.
  \<^item> An object is the list of its properties in enumeration order, each key once.
  \<^item> A property or a variable that is \<^verbatim>\<open>undefined\<close> is \<open>None\<close>.
\<close>

type_synonym js_number = string

datatype json =
    JNull
  | JBool bool
  | JNum js_number
  | JStr string
  | JArr "json list"
  | JObj "(string \<times> json) list"

datatype error =
    TypeError
  | ClientThrew string
  | JsonParseError
  | ManifestFetchFailed nat string
  | SectionFetchFailed string nat string
  | Unauthorized
  | Forbidden
  | UnknownTool string
  | UnknownPrompt string
  | UnknownResource string
  | PromptFetchFailed string nat string
  | ResourceFetchFailed string nat string
  | UnsupportedContentType string
  | UnsupportedPromptContentType string

text \<open>Truthiness of a value (\<^verbatim>\<open>if (v)\<close>, \<^verbatim>\<open>!v\<close>, \<^verbatim>\<open>v ? a : b\<close>).\<close>

fun truthy :: "json \<Rightarrow> bool" where
  "truthy JNull = False"
| "truthy (JBool b) = b"
| "truthy (JNum n) = (n \<noteq> ''0'' \<and> n \<noteq> ''NaN'')"
| "truthy (JStr s) = (s \<noteq> [])"
| "truthy (JArr _) = True"
| "truthy (JObj _) = True"

text \<open>The same for a value that may be \<^verbatim>\<open>undefined\<close>.\<close>

fun truthy_opt :: "json option \<Rightarrow> bool" where
  "truthy_opt None = False"
| "truthy_opt (Some v) = truthy v"

text \<open>
  Reading a property \<^verbatim>\<open>v.k\<close>. On \<^verbatim>\<open>null\<close> it throws a TypeError; a primitive
  or an array has none of the property names the adapter reads
  (\<^verbatim>\<open>tools\<close>, \<^verbatim>\<open>name\<close>, \<^verbatim>\<open>uri\<close>, \<^verbatim>\<open>href\<close>, \<^verbatim>\<open>messages\<close>, \<^verbatim>\<open>contents\<close>, ...).
\<close>

fun js_get :: "json \<Rightarrow> string \<Rightarrow> error + json option" where
  "js_get JNull k = Inl TypeError"
| "js_get (JObj kvs) k = Inr (map_of kvs k)"
| "js_get _ k = Inr None"

section \<open>Strings\<close>

text \<open>\<^verbatim>\<open>s.startsWith(p)\<close> and \<^verbatim>\<open>s.includes(p)\<close>; both compare characters exactly.\<close>

fun startsWith :: "string \<Rightarrow> string \<Rightarrow> bool" where
  "startsWith s [] = True"
| "startsWith [] (p # ps) = False"
| "startsWith (c # cs) (p # ps) = (c = p \<and> startsWith cs ps)"

fun str_includes :: "string \<Rightarrow> string \<Rightarrow> bool" where
  "str_includes [] p = (p = [])"
| "str_includes (c # cs) p = (startsWith (c # cs) p \<or> str_includes cs p)"

section \<open>URL resolver\<close>

text \<open>
  \<^verbatim>\<open>baseURL.replace(/\/+$/, "")\<close> removes the run of slashes that ends the string,
  \<^verbatim>\<open>relativeURL.replace(/^\/+/, "")\<close> the run that starts it.
\<close>

definition replace_trailing_slashes :: "string \<Rightarrow> string" where
  "replace_trailing_slashes s = rev (dropWhile (\<lambda>c. c = CHR ''/'') (rev s))"

definition replace_leading_slashes :: "string \<Rightarrow> string" where
  "replace_leading_slashes s = dropWhile (\<lambda>c. c = CHR ''/'') s"

definition combineURLs :: "string \<Rightarrow> string \<Rightarrow> string" where
  "combineURLs baseURL relativeURL =
     (if relativeURL \<noteq> []
      then replace_trailing_slashes baseURL @ ''/'' @ replace_leading_slashes relativeURL
      else baseURL)"

section \<open>Rendering values as text\<close>

definition digit_char :: "nat \<Rightarrow> char" where
  "digit_char d = ''0123456789'' ! (d mod 10)"

fun show_nat :: "nat \<Rightarrow> string" where
  "show_nat n = (if n < 10 then [digit_char n] else show_nat (n div 10) @ [digit_char (n mod 10)])"

declare show_nat.simps [simp del]

text \<open>Hexadecimal digits, upper case (percent-encoding) and lower case (JSON escapes).\<close>

definition hex_upper :: "nat \<Rightarrow> char" where
  "hex_upper d = ''0123456789ABCDEF'' ! (d mod 16)"

definition hex_lower :: "nat \<Rightarrow> char" where
  "hex_lower d = ''0123456789abcdef'' ! (d mod 16)"

text \<open>\<^verbatim>\<open>Array.prototype.join\<close> on strings.\<close>

fun join :: "string \<Rightarrow> string list \<Rightarrow> string" where
  "join sep [] = []"
| "join sep [x] = x"
| "join sep (x # y # ys) = x @ sep @ join sep (y # ys)"

text \<open>
  \<^verbatim>\<open>JSON.stringify\<close> of a JSON value: no white space, strings quoted with the quote, the
  backslash and the control characters escaped.
\<close>

definition json_quote_char :: "char \<Rightarrow> string" where
  "json_quote_char c =
     (let n = (of_char c :: nat) in
      if n = 34 then [CHR 0x5C, CHR 0x22]
      else if n = 92 then [CHR 0x5C, CHR 0x5C]
      else if n = 8 then [CHR 0x5C, CHR ''b'']
      else if n = 9 then [CHR 0x5C, CHR ''t'']
      else if n = 10 then [CHR 0x5C, CHR ''n'']
      else if n = 12 then [CHR 0x5C, CHR ''f'']
      else if n = 13 then [CHR 0x5C, CHR ''r'']
      else if n < 32 then [CHR 0x5C, CHR ''u'', CHR ''0'', CHR ''0'', hex_lower (n div 16), hex_lower (n mod 16)]
      else [c])"

definition JSON_quote :: "string \<Rightarrow> string" where
  "JSON_quote s = CHR 0x22 # concat (map json_quote_char s) @ [CHR 0x22]"

fun JSON_stringify :: "json \<Rightarrow> string"
  and stringify_elems :: "json list \<Rightarrow> string list"
  and stringify_props :: "(string \<times> json) list \<Rightarrow> string list" where
  "JSON_stringify JNull = ''null''"
| "JSON_stringify (JBool b) = (if b then ''true'' else ''false'')"
| "JSON_stringify (JNum n) =
     (if n = ''Infinity'' \<or> n = ''-Infinity'' \<or> n = ''NaN'' then ''null'' else n)"
| "JSON_stringify (JStr s) = JSON_quote s"
| "JSON_stringify (JArr xs) = ''['' @ join '','' (stringify_elems xs) @ '']''"
| "JSON_stringify (JObj kvs) = ''{'' @ join '','' (stringify_props kvs) @ ''}''"
| "stringify_elems [] = []"
| "stringify_elems (x # xs) = JSON_stringify x # stringify_elems xs"
| "stringify_props [] = []"
| "stringify_props ((k, v) # kvs) = (JSON_quote k @ '':'' @ JSON_stringify v) # stringify_props kvs"

text \<open>
  \<^verbatim>\<open>String(v)\<close>: a string is itself, an array is its elements joined by commas (with
  \<^verbatim>\<open>null\<close> elements empty), an object is \<^verbatim>\<open>[object Object]\<close>.
\<close>

fun js_String :: "json \<Rightarrow> string"
  and js_String_elems :: "json list \<Rightarrow> string list" where
  "js_String JNull = ''null''"
| "js_String (JBool b) = (if b then ''true'' else ''false'')"
| "js_String (JNum n) = n"
| "js_String (JStr s) = s"
| "js_String (JArr xs) = join '','' (js_String_elems xs)"
| "js_String (JObj kvs) = ''[object Object]''"
| "js_String_elems [] = []"
| "js_String_elems (x # xs) = (if x = JNull then [] else js_String x) # js_String_elems xs"

text \<open>\<^verbatim>\<open>typeof v\<close> and \<^verbatim>\<open>Array.isArray(v)\<close>.\<close>

fun js_typeof :: "json \<Rightarrow> string" where
  "js_typeof JNull = ''object''"
| "js_typeof (JBool _) = ''boolean''"
| "js_typeof (JNum _) = ''number''"
| "js_typeof (JStr _) = ''string''"
| "js_typeof (JArr _) = ''object''"
| "js_typeof (JObj _) = ''object''"

fun isArray :: "json option \<Rightarrow> bool" where
  "isArray (Some (JArr _)) = True"
| "isArray _ = False"

text \<open>The template literal \<^verbatim>\<open>`${v}`\<close> of a string that may be \<^verbatim>\<open>undefined\<close>.\<close>

fun template_str :: "string option \<Rightarrow> string" where
  "template_str None = ''undefined''"
| "template_str (Some s) = s"

section \<open>Objects: property order, assignment and spread\<close>

text \<open>
  The own properties of an object are enumerated with the array indices first, in
  ascending order, and then the other keys in the order of their creation. An array
  index is a canonical decimal numeral below \<open>2^32 - 1\<close>.
\<close>

definition is_digit :: "char \<Rightarrow> bool" where
  "is_digit c = (48 \<le> (of_char c :: nat) \<and> (of_char c :: nat) \<le> 57)"

definition index_val :: "string \<Rightarrow> nat" where
  "index_val k = foldl (\<lambda>n c. 10 * n + ((of_char c :: nat) - 48)) 0 k"

definition is_array_index :: "string \<Rightarrow> bool" where
  "is_array_index k =
     (k \<noteq> [] \<and> list_all is_digit k \<and> (k = ''0'' \<or> hd k \<noteq> CHR ''0'') \<and>
      index_val k < 4294967295)"

fun obj_replace :: "(string \<times> json) list \<Rightarrow> string \<Rightarrow> json \<Rightarrow> (string \<times> json) list" where
  "obj_replace [] k v = []"
| "obj_replace ((k', v') # kvs) k v =
     (if k' = k then (k, v) # kvs else (k', v') # obj_replace kvs k v)"

fun obj_insert_index :: "(string \<times> json) list \<Rightarrow> string \<Rightarrow> json \<Rightarrow> (string \<times> json) list" where
  "obj_insert_index [] k v = [(k, v)]"
| "obj_insert_index ((k', v') # kvs) k v =
     (if is_array_index k' \<and> index_val k' < index_val k
      then (k', v') # obj_insert_index kvs k v
      else (k, v) # (k', v') # kvs)"

text \<open>
  \<^verbatim>\<open>o[k] = v\<close> on an object: an existing property keeps its place and takes the new
  value; a new one is created, an array index among the indices, another key at the end.
\<close>

definition obj_set :: "(string \<times> json) list \<Rightarrow> string \<Rightarrow> json \<Rightarrow> (string \<times> json) list" where
  "obj_set kvs k v =
     (if map_of kvs k \<noteq> None then obj_replace kvs k v
      else if is_array_index k then obj_insert_index kvs k v
      else kvs @ [(k, v)])"

text \<open>
  The own enumerable properties of a value, as \<^verbatim>\<open>Object.entries\<close> and the spread
  \<^verbatim>\<open>{...v}\<close> see them: those of an object, the elements of an array under their
  indices, the characters of a string under theirs (one per byte here, which is what
  JavaScript does on ASCII strings), none for the other primitives.
\<close>

fun indexed_from :: "nat \<Rightarrow> json list \<Rightarrow> (string \<times> json) list" where
  "indexed_from i [] = []"
| "indexed_from i (x # xs) = (show_nat i, x) # indexed_from (Suc i) xs"

fun own_entries :: "json \<Rightarrow> (string \<times> json) list" where
  "own_entries (JObj kvs) = kvs"
| "own_entries (JArr xs) = indexed_from 0 xs"
| "own_entries (JStr s) = indexed_from 0 (map (\<lambda>c. JStr [c]) s)"
| "own_entries _ = []"

text \<open>\<^verbatim>\<open>{...target, ...source}\<close>: each property of the source is set on the target in turn.\<close>

definition obj_spread :: "(string \<times> json) list \<Rightarrow> json \<Rightarrow> (string \<times> json) list" where
  "obj_spread target source = foldl (\<lambda>acc (k, v). obj_set acc k v) target (own_entries source)"

text \<open>\<^verbatim>\<open>a ?? b\<close>: the left operand unless it is \<^verbatim>\<open>undefined\<close> or \<^verbatim>\<open>null\<close>.\<close>

fun nullish_or :: "json option \<Rightarrow> json option \<Rightarrow> json option" where
  "nullish_or None b = b"
| "nullish_or (Some JNull) b = b"
| "nullish_or (Some v) b = Some v"

section \<open>Query strings\<close>

text \<open>
  \<^verbatim>\<open>URLSearchParams.prototype.toString\<close>: the \<^verbatim>\<open>application/x-www-form-urlencoded\<close>
  serialiser. Letters, digits and \<^verbatim>\<open>* - . _\<close> stay, a space becomes \<^verbatim>\<open>+\<close>, every
  other byte becomes \<^verbatim>\<open>%XX\<close>.
\<close>

definition urlencode_char :: "char \<Rightarrow> string" where
  "urlencode_char c =
     (let n = (of_char c :: nat) in
      if (48 \<le> n \<and> n \<le> 57) \<or> (65 \<le> n \<and> n \<le> 90) \<or> (97 \<le> n \<and> n \<le> 122) \<or>
         n = 42 \<or> n = 45 \<or> n = 46 \<or> n = 95 then [c]
      else if n = 32 then ''+''
      else [CHR ''%'', hex_upper (n div 16), hex_upper (n mod 16)])"

definition urlencode :: "string \<Rightarrow> string" where
  "urlencode s = concat (map urlencode_char s)"

definition URLSearchParams_toString :: "(string \<times> string) list \<Rightarrow> string" where
  "URLSearchParams_toString params =
     join ''&'' (map (\<lambda>(k, v). urlencode k @ ''='' @ urlencode v) params)"

text \<open>
  \<^verbatim>\<open>new URLSearchParams(obj)\<close> and the loop
  \<^verbatim>\<open>Object.entries(obj).forEach(([key, value]) => queryParams.append(key, String(value)))\<close>
  both produce one parameter for each property, with the value converted to a string.
\<close>

definition params_of :: "(string \<times> json) list \<Rightarrow> (string \<times> string) list" where
  "params_of kvs = map (\<lambda>(k, v). (k, js_String v)) kvs"

section \<open>The HTTP collaborator\<close>

type_synonym headers = "(string \<times> string) list"

datatype http_method = GET | POST

record request =
  req_method :: http_method
  req_url :: "string option"
  req_body :: "json option"
  req_headers :: "headers option"

text \<open>
  A response as the adapter reads it: the status, the \<^verbatim>\<open>Content-Type\<close> header
  (\<^verbatim>\<open>res.headers.get("Content-Type")\<close>, \<open>None\<close> when the header is absent) and the
  results of the accessors \<^verbatim>\<open>text()\<close>, \<^verbatim>\<open>json()\<close> (\<open>None\<close> when it throws) and
  \<^verbatim>\<open>arrayBuffer()\<close>. The body of a \<^verbatim>\<open>fetch\<close> response can be read once: a second
  accessor call throws (\<open>res_bodyReadOnce\<close>); the mock response of the test-suite can
  be read again.
\<close>

record response =
  res_status :: nat
  res_statusText :: string
  res_contentType :: "string option"
  res_text :: string
  res_json :: "json option"
  res_arrayBuffer :: "8 word list"
  res_bodyReadOnce :: bool

text \<open>\<^verbatim>\<open>res.ok\<close>: the status is in the range 200 to 299.\<close>

definition res_ok :: "response \<Rightarrow> bool" where
  "res_ok res = (200 \<le> res_status res \<and> res_status res < 300)"

text \<open>
  The injected client. Its answer to a request may depend on the requests it has
  received before (the first argument); it either throws or returns a response.
  Every operation below takes the list of the requests issued so far and returns it
  extended by the requests it issues.
\<close>

type_synonym httpClient = "request list \<Rightarrow> request \<Rightarrow> error + response"

definition getUrl :: "string option \<Rightarrow> headers option \<Rightarrow> request" where
  "getUrl url hs = \<lparr>req_method = GET, req_url = url, req_body = None, req_headers = hs\<rparr>"

definition postUrl :: "string option \<Rightarrow> json option \<Rightarrow> headers option \<Rightarrow> request" where
  "postUrl url data hs = \<lparr>req_method = POST, req_url = url, req_body = data, req_headers = hs\<rparr>"

section \<open>Content transcoder\<close>

text \<open>\<^verbatim>\<open>Buffer.from(bytes).toString("base64")\<close>: the standard alphabet, padded.\<close>

definition b64_char :: "nat \<Rightarrow> char" where
  "b64_char n =
     ''ABCDEFGHIJKLMNOPQRSTUVWXYZabcdefghijklmnopqrstuvwxyz0123456789+/'' ! (n mod 64)"

fun base64 :: "8 word list \<Rightarrow> string" where
  "base64 [] = []"
| "base64 [a] =
     (let n = unat a in
      [b64_char (n div 4), b64_char ((n mod 4) * 16), CHR ''='', CHR ''=''])"
| "base64 [a, b] =
     (let n = unat a * 256 + unat b in
      [b64_char (n div 1024), b64_char (n div 16 mod 64), b64_char ((n mod 16) * 4), CHR ''=''])"
| "base64 (a # b # c # rest) =
     (let n = unat a * 65536 + unat b * 256 + unat c in
      [b64_char (n div 262144), b64_char (n div 4096 mod 64), b64_char (n div 64 mod 64),
       b64_char (n mod 64)] @ base64 rest)"

definition makeTextContent :: "string \<Rightarrow> json" where
  "makeTextContent text =
     JObj [(''content'', JArr [JObj [(''type'', JStr ''text''), (''text'', JStr text)]])]"

definition handleHttpError :: "response \<Rightarrow> error + unit" where
  "handleHttpError res =
     (if res_status res = 401 then Inl Unauthorized
      else if res_status res = 403 then Inl Forbidden
      else Inr ())"

definition isTextContent :: "string \<Rightarrow> bool" where
  "isTextContent contentType =
     (str_includes contentType ''text/'' \<or>
      str_includes contentType ''application/json'' \<or>
      str_includes contentType ''application/xml'')"

text \<open>\<^verbatim>\<open>res.headers.get("Content-Type") ?? ""\<close>\<close>

definition contentType_of :: "response \<Rightarrow> string" where
  "contentType_of res = (case res_contentType res of None \<Rightarrow> [] | Some c \<Rightarrow> c)"

definition toMCPContent :: "response \<Rightarrow> error + json" where
  "toMCPContent res =
     (let contentType = contentType_of res in
      if str_includes contentType ''text/plain'' then Inr (makeTextContent (res_text res))
      else if str_includes contentType ''application/json'' then
        (case res_json res of
           None \<Rightarrow> Inl JsonParseError
         | Some json \<Rightarrow>
             if isArray (Some json) then Inr (JObj [(''content'', json)])
             else if js_typeof json = ''object'' \<and> json \<noteq> JNull then Inr json
             else Inr (makeTextContent
                    (if js_typeof json = ''string'' then js_String json
                     else JSON_stringify json)))
      else if startsWith contentType ''image/'' then
        Inr (JObj [(''content'', JArr [JObj
          [(''type'', JStr ''image''),
           (''mimeType'', JStr contentType),
           (''data'', JStr (base64 (res_arrayBuffer res)))]])])
      else Inl (UnsupportedContentType contentType))"

definition toMCPResourceContent :: "response \<Rightarrow> string \<Rightarrow> json" where
  "toMCPResourceContent res uri =
     (let contentType = contentType_of res in
      if isTextContent contentType then
        JObj [(''uri'', JStr uri), (''mimeType'', JStr contentType), (''text'', JStr (res_text res))]
      else
        JObj [(''uri'', JStr uri),
              (''mimeType'', JStr (if contentType \<noteq> [] then contentType
                                   else ''application/octet-stream'')),
              (''blob'', JStr (base64 (res_arrayBuffer res)))])"

section \<open>Capability-state initializer\<close>

record serverConfig =
  baseUrl :: string
  headers :: "headers option"

text \<open>
  The state object. \<open>config\<close> and \<open>manifest\<close> are the properties the initializer
  writes; \<open>state_baseUrl\<close> and \<open>state_headers\<close> are the top-level properties
  \<^verbatim>\<open>baseUrl\<close> and \<^verbatim>\<open>headers\<close> of the \<^verbatim>\<open>ServerState\<close> typedef, which the
  dispatchers read. A section is whatever \<^verbatim>\<open>res.json()\<close> returned for its listing.
\<close>

record serverState =
  config :: "serverConfig option"
  manifest :: "json option"
  state_baseUrl :: "string option"
  state_headers :: "headers option"
  tools :: "json option"
  toolsUrl :: "string option"
  prompts :: "json option"
  promptsUrl :: "string option"
  resources :: "json option"
  resourcesUrl :: "string option"
  resourceTemplates :: "json option"
  resourceTemplatesUrl :: "string option"

text \<open>
  What one section contributes: nothing (\<^verbatim>\<open>{}\<close>), or the object
  \<^verbatim>\<open>{[sectionName]: data, [`${sectionName}Url`]: url}\<close>, kept as the triple of the
  section name, the data and the URL.
\<close>

type_synonym contribution = "(string \<times> json \<times> string) option"

definition section_path :: "string \<Rightarrow> json \<Rightarrow> string" where
  "section_path sectionName manifestValue =
     (if js_typeof manifestValue = ''string'' then js_String manifestValue
      else if sectionName = ''resourceTemplates'' then ''resource_templates''
      else sectionName)"

text \<open>
  \<open>fetchManifestSection\<close> runs up to its request as soon as it is called, so the
  request is issued at the call; the result is the value its promise settles to.
\<close>

definition fetchManifestSection ::
  "httpClient \<Rightarrow> string \<Rightarrow> headers option \<Rightarrow> string \<Rightarrow> json option \<Rightarrow> request list
     \<Rightarrow> (error + contribution) \<times> request list" where
  "fetchManifestSection httpClient base hs sectionName manifestValue log =
     (case manifestValue of
        None \<Rightarrow> (Inr None, log)
      | Some mv \<Rightarrow>
          if \<not> truthy mv then (Inr None, log)
          else
            let path = section_path sectionName mv;
                url = combineURLs base path;
                req = getUrl (Some url) hs
            in ((case httpClient log req of
                   Inl e \<Rightarrow> Inl e
                 | Inr res \<Rightarrow>
                     if \<not> res_ok res
                     then Inl (SectionFetchFailed sectionName (res_status res) (res_statusText res))
                     else (case res_json res of
                             None \<Rightarrow> Inl JsonParseError
                           | Some j \<Rightarrow> Inr (Some (sectionName, j, url)))),
                log @ [req]))"

text \<open>
  The array literal passed to \<^verbatim>\<open>Promise.all\<close>: for each section in turn the manifest
  property is read and \<open>fetchManifestSection\<close> is called. Reading a property of a
  \<^verbatim>\<open>null\<close> manifest throws before any call.
\<close>

definition sectionNames :: "string list" where
  "sectionNames = [''tools'', ''prompts'', ''resources'', ''resourceTemplates'']"

fun start_sections ::
  "httpClient \<Rightarrow> string \<Rightarrow> headers option \<Rightarrow> json \<Rightarrow> string list \<Rightarrow> request list
     \<Rightarrow> (error + (error + contribution) list) \<times> request list" where
  "start_sections httpClient base hs m [] log = (Inr [], log)"
| "start_sections httpClient base hs m (n # ns) log =
     (case js_get m n of
        Inl e \<Rightarrow> (Inl e, log)
      | Inr mv \<Rightarrow>
          let (p, log') = fetchManifestSection httpClient base hs n mv log;
              (rest, log'') = start_sections httpClient base hs m ns log'
          in ((case rest of Inl e \<Rightarrow> Inl e | Inr ps \<Rightarrow> Inr (p # ps)), log''))"

text \<open>
  \<^verbatim>\<open>Promise.all\<close>: it rejects with the first rejection in time and otherwise resolves
  to the list of the values. The order in which the promises settle is not fixed by the
  program; it is the parameter \<open>settle\<close>, a list of positions (positions it does not
  mention settle last, in the order of the array).
\<close>

fun first_rejection :: "nat list \<Rightarrow> (error + 'a) list \<Rightarrow> error option" where
  "first_rejection [] ps = None"
| "first_rejection (i # is) ps =
     (if i < length ps
      then (case ps ! i of Inl e \<Rightarrow> Some e | Inr _ \<Rightarrow> first_rejection is ps)
      else first_rejection is ps)"

fun resolved_values :: "(error + 'a) list \<Rightarrow> 'a list" where
  "resolved_values [] = []"
| "resolved_values (Inl e # ps) = resolved_values ps"
| "resolved_values (Inr v # ps) = v # resolved_values ps"

definition Promise_all :: "nat list \<Rightarrow> (error + 'a) list \<Rightarrow> error + 'a list" where
  "Promise_all settle ps =
     (case first_rejection (settle @ [0 ..< length ps]) ps of
        Some e \<Rightarrow> Inl e
      | None \<Rightarrow> Inr (resolved_values ps))"

text \<open>\<^verbatim>\<open>Object.assign\<close> of one contribution into the state.\<close>

fun assign_section :: "serverState \<Rightarrow> contribution \<Rightarrow> serverState" where
  "assign_section st None = st"
| "assign_section st (Some (n, j, u)) =
     (if n = ''tools'' then st\<lparr>tools := Some j, toolsUrl := Some u\<rparr>
      else if n = ''prompts'' then st\<lparr>prompts := Some j, promptsUrl := Some u\<rparr>
      else if n = ''resources'' then st\<lparr>resources := Some j, resourcesUrl := Some u\<rparr>
      else if n = ''resourceTemplates''
        then st\<lparr>resourceTemplates := Some j, resourceTemplatesUrl := Some u\<rparr>
      else st)"

definition initial_state :: "serverConfig \<Rightarrow> json \<Rightarrow> serverState" where
  "initial_state cfg m =
     \<lparr>config = Some cfg, manifest = Some m, state_baseUrl = None, state_headers = None,
      tools = None, toolsUrl = None, prompts = None, promptsUrl = None,
      resources = None, resourcesUrl = None,
      resourceTemplates = None, resourceTemplatesUrl = None\<rparr>"

definition initializeServerState ::
  "httpClient \<Rightarrow> serverConfig \<Rightarrow> nat list \<Rightarrow> request list
     \<Rightarrow> (error + serverState) \<times> request list" where
  "initializeServerState httpClient cfg settle log =
     (let req = getUrl (Some (baseUrl cfg)) (headers cfg);
          log1 = log @ [req]
      in case httpClient log req of
           Inl e \<Rightarrow> (Inl e, log1)
         | Inr manifestRes \<Rightarrow>
             if \<not> res_ok manifestRes
             then (Inl (ManifestFetchFailed (res_status manifestRes) (res_statusText manifestRes)),
                   log1)
             else (case res_json manifestRes of
                     None \<Rightarrow> (Inl JsonParseError, log1)
                   | Some m \<Rightarrow>
                       let (started, log2) =
                             start_sections httpClient (baseUrl cfg) (headers cfg) m sectionNames log1
                       in (case started of
                             Inl e \<Rightarrow> (Inl e, log2)
                           | Inr promises \<Rightarrow>
                               (case Promise_all settle promises of
                                  Inl e \<Rightarrow> (Inl e, log2)
                                | Inr sections \<Rightarrow>
                                    (Inr (foldl assign_section (initial_state cfg m) sections),
                                     log2)))))"

section \<open>Request dispatchers\<close>

text \<open>
  \<^verbatim>\<open>arr.find((t) => t[key] === x)\<close>: reading the property of a \<^verbatim>\<open>null\<close> element
  throws; \<^verbatim>\<open>.find\<close> on a value that is absent or not an array throws as well.
\<close>

fun find_by :: "string \<Rightarrow> string \<Rightarrow> json list \<Rightarrow> error + json option" where
  "find_by key x [] = Inr None"
| "find_by key x (t # ts) =
     (case js_get t key of
        Inl e \<Rightarrow> Inl e
      | Inr v \<Rightarrow> if v = Some (JStr x) then Inr (Some t) else find_by key x ts)"

fun js_find_by :: "string \<Rightarrow> string \<Rightarrow> json option \<Rightarrow> error + json option" where
  "js_find_by key x (Some (JArr ts)) = find_by key x ts"
| "js_find_by key x _ = Inl TypeError"

text \<open>Reading a property of an entry that \<open>find_by\<close> returned (it is not \<^verbatim>\<open>null\<close>).\<close>

fun js_prop :: "json \<Rightarrow> string \<Rightarrow> json option" where
  "js_prop (JObj kvs) k = map_of kvs k"
| "js_prop _ k = None"

text \<open>
  \<open>combineURLs\<close> as the dispatchers call it, with a base that may be absent from the
  state and a path read from an entry: a falsy path returns the base as it is, and
  \<^verbatim>\<open>.replace\<close> on an absent base or on a path that is not a string throws.
\<close>

definition combineURLs_js :: "string option \<Rightarrow> json option \<Rightarrow> error + string option" where
  "combineURLs_js baseURL relativeURL =
     (if truthy_opt relativeURL
      then (case (baseURL, relativeURL) of
              (Some b, Some (JStr r)) \<Rightarrow> Inr (Some (combineURLs b r))
            | _ \<Rightarrow> Inl TypeError)
      else Inr baseURL)"

text \<open>\<^verbatim>\<open>content.isError = true\<close> on the object \<open>toMCPContent\<close> returned.\<close>

fun js_set :: "json \<Rightarrow> string \<Rightarrow> json \<Rightarrow> json" where
  "js_set (JObj kvs) k v = JObj (obj_set kvs k v)"
| "js_set j k v = j"

definition mcpCallTool ::
  "httpClient \<Rightarrow> serverState \<Rightarrow> string \<Rightarrow> json option \<Rightarrow> request list
     \<Rightarrow> (error + json) \<times> request list" where
  "mcpCallTool httpClient state toolName toolArguments log =
     (case js_find_by ''name'' toolName (tools state) of
        Inl e \<Rightarrow> (Inl e, log)
      | Inr None \<Rightarrow> (Inl (UnknownTool toolName), log)
      | Inr (Some tool) \<Rightarrow>
          let toolPath = nullish_or (js_prop tool ''href'') (js_prop tool ''name'') in
          (case combineURLs_js (toolsUrl state) toolPath of
             Inl e \<Rightarrow> (Inl e, log)
           | Inr resolvedToolUrl \<Rightarrow>
               let req = postUrl resolvedToolUrl toolArguments (state_headers state) in
               ((case httpClient log req of
                   Inl e \<Rightarrow> Inl e
                 | Inr res \<Rightarrow>
                     (case handleHttpError res of
                        Inl e \<Rightarrow> Inl e
                      | Inr _ \<Rightarrow>
                          (case toMCPContent res of
                             Inl e \<Rightarrow> Inl e
                           | Inr content \<Rightarrow>
                               Inr (if \<not> res_ok res then js_set content ''isError'' (JBool True)
                                    else content)))),
                log @ [req])))"

definition prompt_message :: "string \<Rightarrow> string \<Rightarrow> json" where
  "prompt_message role text =
     JObj [(''messages'', JArr [JObj
       [(''role'', JStr role),
        (''content'', JObj [(''type'', JStr ''text''), (''text'', JStr text)])]])]"

definition mcpGetPrompt ::
  "httpClient \<Rightarrow> serverState \<Rightarrow> string \<Rightarrow> json option \<Rightarrow> request list
     \<Rightarrow> (error + json) \<times> request list" where
  "mcpGetPrompt httpClient state promptName promptArguments log =
     (case js_find_by ''name'' promptName (prompts state) of
        Inl e \<Rightarrow> (Inl e, log)
      | Inr None \<Rightarrow> (Inl (UnknownPrompt promptName), log)
      | Inr (Some prompt) \<Rightarrow>
          let promptPath = nullish_or (js_prop prompt ''href'') (js_prop prompt ''name'') in
          (case combineURLs_js (promptsUrl state) promptPath of
             Inl e \<Rightarrow> (Inl e, log)
           | Inr basePromptUrl \<Rightarrow>
               let queryParams =
                     (case promptArguments of
                        Some a \<Rightarrow>
                          if truthy a \<and> js_typeof a = ''object'' then params_of (own_entries a)
                          else []
                      | None \<Rightarrow> []);
                   query = URLSearchParams_toString queryParams;
                   resolvedPromptUrl =
                     (if query \<noteq> [] then Some (template_str basePromptUrl @ ''?'' @ query)
                      else basePromptUrl);
                   req = getUrl resolvedPromptUrl (state_headers state)
               in ((case httpClient log req of
                      Inl e \<Rightarrow> Inl e
                    | Inr res \<Rightarrow>
                        (case handleHttpError res of
                           Inl e \<Rightarrow> Inl e
                         | Inr _ \<Rightarrow>
                             if \<not> res_ok res
                             then Inl (PromptFetchFailed promptName (res_status res)
                                         (res_statusText res))
                             else
                               let contentType = contentType_of res in
                               if str_includes contentType ''application/json'' then
                                 (case res_json res of
                                    None \<Rightarrow> Inl JsonParseError
                                  | Some json \<Rightarrow>
                                      if truthy json \<and> js_typeof json = ''object'' \<and>
                                         isArray (js_prop json ''messages'')
                                      then Inr json
                                      else Inr (prompt_message ''assistant'' (JSON_stringify json)))
                               else if str_includes contentType ''text/plain'' then
                                 Inr (prompt_message ''user'' (res_text res))
                               else Inl (UnsupportedPromptContentType contentType))),
                   log @ [req])))"

text \<open>
  In \<open>mcpReadResource\<close>, a JSON body without a \<^verbatim>\<open>contents\<close> array falls through to
  \<open>toMCPResourceContent\<close>, which reads the body a second time with \<^verbatim>\<open>res.text()\<close>
  (the content type contains \<^verbatim>\<open>application/json\<close>, so it counts as text): that throws
  on a response whose body can be read once.
\<close>

definition mcpReadResource ::
  "httpClient \<Rightarrow> serverState \<Rightarrow> string \<Rightarrow> json option \<Rightarrow> request list
     \<Rightarrow> (error + json) \<times> request list" where
  "mcpReadResource httpClient state resourceUri resourceArguments log =
     (case js_find_by ''uri'' resourceUri (resources state) of
        Inl e \<Rightarrow> (Inl e, log)
      | Inr None \<Rightarrow> (Inl (UnknownResource resourceUri), log)
      | Inr (Some resource) \<Rightarrow>
          let args = (case resourceArguments of None \<Rightarrow> JObj [] | Some a \<Rightarrow> a);
              queryParams = params_of (obj_spread [(''uri'', JStr resourceUri)] args);
              query = URLSearchParams_toString queryParams
          in
          (case (if truthy_opt (js_prop resource ''href'')
                 then (case combineURLs_js (resourcesUrl state) (js_prop resource ''href'') of
                         Inl e \<Rightarrow> Inl e
                       | Inr u \<Rightarrow> Inr (template_str u @ ''?'' @ query))
                 else Inr (template_str (resourcesUrl state) @ ''?'' @ query)) of
             Inl e \<Rightarrow> (Inl e, log)
           | Inr resolvedResourceUrl \<Rightarrow>
               let req = getUrl (Some resolvedResourceUrl) (state_headers state) in
               ((case httpClient log req of
                   Inl e \<Rightarrow> Inl e
                 | Inr res \<Rightarrow>
                     (case handleHttpError res of
                        Inl e \<Rightarrow> Inl e
                      | Inr _ \<Rightarrow>
                          if \<not> res_ok res
                          then Inl (ResourceFetchFailed resourceUri (res_status res)
                                      (res_statusText res))
                          else
                            let contentType = contentType_of res;
                                wrapped =
                                  Inr (JObj [(''contents'',
                                              JArr [toMCPResourceContent res resourceUri])])
                            in
                            if str_includes contentType ''application/json'' then
                              (case res_json res of
                                 None \<Rightarrow> Inl JsonParseError
                               | Some json \<Rightarrow>
                                   if truthy json \<and> js_typeof json = ''object'' \<and>
                                      isArray (js_prop json ''contents'')
                                   then Inr json
                                   else if res_bodyReadOnce res then Inl TypeError
                                   else wrapped)
                            else wrapped)),
                log @ [req])))"

section \<open>Notions used to state the properties\<close>

text \<open>
  The requests \<open>start_sections\<close> issues for a manifest: one \<^verbatim>\<open>GET\<close> for each
  section whose manifest value is truthy, in the order of the sections.
\<close>

fun declared_requests :: "string \<Rightarrow> headers option \<Rightarrow> json \<Rightarrow> string list \<Rightarrow> request list" where
  "declared_requests base hs m [] = []"
| "declared_requests base hs m (n # ns) =
     (case js_prop m n of
        None \<Rightarrow> declared_requests base hs m ns
      | Some v \<Rightarrow>
          if truthy v
          then getUrl (Some (combineURLs base (section_path n v))) hs # declared_requests base hs m ns
          else declared_requests base hs m ns)"

text \<open>A fetch fails when the client throws or the response is not \<^verbatim>\<open>ok\<close>.\<close>

fun fetch_failed :: "error + response \<Rightarrow> bool" where
  "fetch_failed (Inl e) = True"
| "fetch_failed (Inr res) = (\<not> res_ok res)"

text \<open>\<^verbatim>\<open>state[sectionName]\<close> and \<^verbatim>\<open>state[`${sectionName}Url`]\<close>.\<close>

definition section_data :: "serverState \<Rightarrow> string \<Rightarrow> json option" where
  "section_data st n =
     (if n = ''tools'' then tools st
      else if n = ''prompts'' then prompts st
      else if n = ''resources'' then resources st
      else if n = ''resourceTemplates'' then resourceTemplates st
      else None)"

definition section_url :: "serverState \<Rightarrow> string \<Rightarrow> string option" where
  "section_url st n =
     (if n = ''tools'' then toolsUrl st
      else if n = ''prompts'' then promptsUrl st
      else if n = ''resources'' then resourcesUrl st
      else if n = ''resourceTemplates'' then resourceTemplatesUrl st
      else None)"

text \<open>A manifest with one field deleted, and with one field given another value.\<close>

fun without_field :: "string \<Rightarrow> json \<Rightarrow> json" where
  "without_field n (JObj kvs) = JObj (filter (\<lambda>kv. fst kv \<noteq> n) kvs)"
| "without_field n j = j"

fun with_field :: "string \<Rightarrow> json \<Rightarrow> json \<Rightarrow> json" where
  "with_field n v (JObj kvs) = JObj (map (\<lambda>kv. if fst kv = n then (n, v) else kv) kvs)"
| "with_field n v j = j"

section \<open>Example servers\<close>

text \<open>
  The mock response of the test-suite (\<^verbatim>\<open>createMockResponse\<close>): the body is served as
  JSON under the content type \<^verbatim>\<open>application/json\<close> and as its string otherwise, and
  \<^verbatim>\<open>json()\<close> throws for any other content type.
\<close>

definition createMockResponse :: "string option \<Rightarrow> json \<Rightarrow> nat \<Rightarrow> string \<Rightarrow> response" where
  "createMockResponse contentType body status statusText =
     (let data = (if contentType = Some ''application/json'' then JSON_stringify body
                  else js_String body)
      in \<lparr>res_status = status, res_statusText = statusText, res_contentType = contentType,
          res_text = data,
          res_json = (if contentType = Some ''application/json'' then Some body else None),
          res_arrayBuffer = map (\<lambda>c. of_nat (of_char c)) data,
          res_bodyReadOnce = False\<rparr>)"

text \<open>A client that serves a fixed table of responses and throws on any other request.\<close>

fun table_client :: "(http_method \<times> string \<times> response) list \<Rightarrow> httpClient" where
  "table_client [] log req = Inl (ClientThrew ''Unexpected request'')"
| "table_client ((m, u, r) # routes) log req =
     (if req_method req = m \<and> req_url req = Some u then Inr r
      else table_client routes log req)"

text \<open>The calculator server of the README, started with an \<^verbatim>\<open>Authorization\<close> header.\<close>

definition calc_manifest :: json where
  "calc_manifest =
     JObj [(''name'', JStr ''calculator''), (''version'', JStr ''1.0.0''), (''tools'', JBool True)]"

definition calc_tools :: json where
  "calc_tools =
     JArr [JObj [(''name'', JStr ''add''), (''description'', JStr ''Add two numbers''),
                 (''inputSchema'', JObj [(''type'', JStr ''object'')])]]"

definition calc_config :: serverConfig where
  "calc_config =
     \<lparr>baseUrl = ''http://127.0.0.1'', headers = Some [(''Authorization'', ''Bearer token'')]\<rparr>"

definition calc_client :: httpClient where
  "calc_client = table_client
     [(GET, ''http://127.0.0.1'', createMockResponse (Some ''application/json'') calc_manifest 200 ''OK''),
      (GET, ''http://127.0.0.1/tools'', createMockResponse (Some ''application/json'') calc_tools 200 ''OK''),
      (POST, ''http://127.0.0.1/tools/add'', createMockResponse (Some ''text/plain'') (JStr ''3'') 200 ''OK'')]"

definition calc_state :: serverState where
  "calc_state =
     (initial_state calc_config calc_manifest)
       \<lparr>tools := Some calc_tools, toolsUrl := Some ''http://127.0.0.1/tools''\<rparr>"

text \<open>The same server when its tool answers 500 with an HTML page, and with a JSON object.\<close>

definition html_error_client :: httpClient where
  "html_error_client = table_client
     [(POST, ''http://127.0.0.1/tools/add'',
       createMockResponse (Some ''text/html'') (JStr ''<h1>Internal Server Error</h1>'') 500
         ''Internal Server Error'')]"

definition json_error_response :: response where
  "json_error_response =
     createMockResponse (Some ''application/json'') (JObj [(''message'', JStr ''Server Error'')]) 500
       ''Internal Server Error''"

definition json_error_client :: httpClient where
  "json_error_client = table_client [(POST, ''http://127.0.0.1/tools/add'', json_error_response)]"

text \<open>A server whose manifest is served and whose sections are not.\<close>

definition manifest_only_client :: httpClient where
  "manifest_only_client = table_client
     [(GET, ''http://127.0.0.1'', createMockResponse (Some ''application/json'') calc_manifest 200 ''OK'')]"

text \<open>A manifest whose \<^verbatim>\<open>tools\<close> field is the empty string.\<close>

definition empty_tools_manifest :: json where
  "empty_tools_manifest =
     JObj [(''name'', JStr ''calculator''), (''version'', JStr ''1.0.0''), (''tools'', JStr [])]"

definition empty_tools_client :: httpClient where
  "empty_tools_client = table_client
     [(GET, ''http://127.0.0.1'',
       createMockResponse (Some ''application/json'') empty_tools_manifest 200 ''OK'')]"

text \<open>A manifest with resource templates at the default path and prompts at a custom one.\<close>

definition templates_manifest :: json where
  "templates_manifest =
     JObj [(''name'', JStr ''files''), (''version'', JStr ''1.0.0''),
           (''prompts'', JStr ''custom-prompts''), (''resourceTemplates'', JBool True)]"

definition templates_client :: httpClient where
  "templates_client = table_client
     [(GET, ''http://127.0.0.1'',
       createMockResponse (Some ''application/json'') templates_manifest 200 ''OK''),
      (GET, ''http://127.0.0.1/custom-prompts'',
       createMockResponse (Some ''application/json'') (JArr []) 200 ''OK''),
      (GET, ''http://127.0.0.1/resource_templates'',
       createMockResponse (Some ''application/json'') (JArr []) 200 ''OK'')]"

text \<open>
  A state as the tests of the dispatchers build it, with two resources, one of them
  with an \<^verbatim>\<open>href\<close>.
\<close>

definition docs_state :: serverState where
  "docs_state =
     \<lparr>config = None, manifest = None, state_baseUrl = Some ''http://127.0.0.1'',
      state_headers = Some [(''X-Custom-Header'', ''value'')],
      tools = None, toolsUrl = None,
      prompts = Some (JArr [JObj [(''name'', JStr ''greet''), (''description'', JStr ''Greets'')]]),
      promptsUrl = Some ''http://127.0.0.1/prompts'',
      resources = Some (JArr
        [JObj [(''uri'', JStr ''file://readme.txt''), (''name'', JStr ''readme.txt'')],
         JObj [(''uri'', JStr ''file://notes.txt''), (''name'', JStr ''notes.txt''),
               (''href'', JStr ''notes'')]]),
      resourcesUrl = Some ''http://127.0.0.1/resources'',
      resourceTemplates = None, resourceTemplatesUrl = None\<rparr>"

definition not_found_response :: response where
  "not_found_response = createMockResponse (Some ''text/plain'') (JStr ''Not found'') 404 ''Not Found''"

definition unauthorized_response :: response where
  "unauthorized_response =
     createMockResponse (Some ''text/plain'') (JStr ''Unauthorized access'') 401 ''Unauthorized''"

definition docs_client :: httpClient where
  "docs_client = table_client
     [(GET, ''http://127.0.0.1/prompts/greet'', not_found_response),
      (GET, ''http://127.0.0.1/resources?uri=file%3A%2F%2Freadme.txt'', unauthorized_response)]"

text \<open>A server that serves the resource \<^verbatim>\<open>file://other.txt\<close> and no other.\<close>

definition other_file_client :: httpClient where
  "other_file_client = table_client
     [(GET, ''http://127.0.0.1/resources?uri=file%3A%2F%2Fother.txt'',
       createMockResponse (Some ''text/plain'') (JStr ''contents of other.txt'') 200 ''OK'')]"

text \<open>Responses with a parameterised JSON type, an image and no content type.\<close>

definition number_response :: response where
  "number_response =
     \<lparr>res_status = 200, res_statusText = ''OK'',
      res_contentType = Some ''application/json; charset=utf-8'',
      res_text = ''123'', res_json = Some (JNum ''123''), res_arrayBuffer = [49, 50, 51],
      res_bodyReadOnce = True\<rparr>"

text \<open>The body \<^verbatim>\<open>1e21\<close>: the number \<open>10^21\<close>, which JavaScript renders as \<^verbatim>\<open>1e+21\<close>.\<close>

definition large_number_response :: response where
  "large_number_response = createMockResponse (Some ''application/json'') (JNum ''1e+21'') 200 ''OK''"

definition png_response :: response where
  "png_response =
     \<lparr>res_status = 200, res_statusText = ''OK'', res_contentType = Some ''image/png'',
      res_text = [], res_json = None, res_arrayBuffer = [72, 105],
      res_bodyReadOnce = True\<rparr>"

definition untyped_response :: response where
  "untyped_response =
     \<lparr>res_status = 200, res_statusText = ''OK'', res_contentType = None,
      res_text = ''hello'', res_json = None, res_arrayBuffer = [104, 101, 108, 108, 111],
      res_bodyReadOnce = True\<rparr>"

section \<open>Strings and the URL resolver: lemmas\<close>


lemma startsWith_iff: "startsWith s p \<longleftrightarrow> (\<exists>t. s = p @ t)"
  by (induction s p rule: startsWith.induct) auto

lemma includes_iff: "str_includes s p \<longleftrightarrow> (\<exists>a b. s = a @ p @ b)"
proof (induction s)
  case Nil
  then show ?case by auto
next
  case (Cons c cs)
  show ?case
  proof
    assume "str_includes (c # cs) p"
    then consider "startsWith (c # cs) p" | "str_includes cs p" by auto
    then show "\<exists>a b. c # cs = a @ p @ b"
    proof cases
      case 1
      then obtain t where "c # cs = p @ t" by (auto simp: startsWith_iff)
      then have "c # cs = [] @ p @ t" by simp
      then show ?thesis by blast
    next
      case 2
      then obtain a b where "cs = a @ p @ b" using Cons.IH by auto
      then have "c # cs = (c # a) @ p @ b" by simp
      then show ?thesis by blast
    qed
  next
    assume "\<exists>a b. c # cs = a @ p @ b"
    then obtain a b where ab: "c # cs = a @ p @ b" by auto
    show "str_includes (c # cs) p"
    proof (cases a)
      case Nil
      with ab have "startsWith (c # cs) p" by (auto simp: startsWith_iff)
      then show ?thesis by simp
    next
      case (Cons x a')
      with ab have "cs = a' @ p @ b" by simp
      then have "str_includes cs p" using Cons.IH by auto
      then show ?thesis by simp
    qed
  qed
qed

lemma replace_trailing_slashes_append:
  "replace_trailing_slashes (b @ replicate i CHR ''/'') = replace_trailing_slashes b"
  by (induction i) (simp_all add: replace_trailing_slashes_def replicate_append_same)

lemma replace_leading_slashes_prepend:
  "replace_leading_slashes (replicate j CHR ''/'' @ r) = replace_leading_slashes r"
  by (induction j) (simp_all add: replace_leading_slashes_def)

lemma replace_trailing_slashes_id:
  assumes "b = [] \<or> last b \<noteq> CHR ''/''"
  shows "replace_trailing_slashes b = b"
proof (cases b rule: rev_cases)
  case Nil
  then show ?thesis by (simp add: replace_trailing_slashes_def)
next
  case (snoc ys y)
  with assms have "y \<noteq> CHR ''/''" by simp
  with snoc show ?thesis by (simp add: replace_trailing_slashes_def)
qed

lemma replace_leading_slashes_id:
  assumes "r = [] \<or> hd r \<noteq> CHR ''/''"
  shows "replace_leading_slashes r = r"
  using assms by (cases r) (simp_all add: replace_leading_slashes_def)

section \<open>Lemmas about the model\<close>

subsection \<open>Lookup and the dispatchers\<close>

lemma find_by_none:
  "\<forall>t\<in>set ts. t \<noteq> JNull \<and> js_prop t key \<noteq> Some (JStr x) \<Longrightarrow> find_by key x ts = Inr None"
proof (induction ts)
  case Nil
  then show ?case by simp
next
  case (Cons t ts)
  then have "t \<noteq> JNull" and "js_prop t key \<noteq> Some (JStr x)" by auto
  then have "js_get t key = Inr (js_prop t key)" by (cases t) auto
  with Cons show ?case by simp
qed

lemma mcpCallTool_answer:
  assumes "mcpCallTool c st n a log = (out, log @ [q])" and "c log q = Inr r"
  shows "out = (case handleHttpError r of Inl e \<Rightarrow> Inl e
                | Inr _ \<Rightarrow> (case toMCPContent r of Inl e \<Rightarrow> Inl e
                     | Inr content \<Rightarrow> Inr (if \<not> res_ok r then js_set content ''isError'' (JBool True) else content)))"
  using assms
  by (auto simp: mcpCallTool_def Let_def split: sum.splits option.splits)

lemma mcpGetPrompt_answer:
  assumes "mcpGetPrompt c st n a log = (out, log @ [q])" and "c log q = Inr r"
  shows "out = (case handleHttpError r of Inl e \<Rightarrow> Inl e
                | Inr _ \<Rightarrow>
                    if \<not> res_ok r
                    then Inl (PromptFetchFailed n (res_status r) (res_statusText r))
                    else out)"
  using assms
  by (auto simp: mcpGetPrompt_def Let_def split: sum.splits option.splits)

lemma mcpReadResource_answer:
  assumes "mcpReadResource c st u a log = (out, log @ [q])" and "c log q = Inr r"
  shows "out = (case handleHttpError r of Inl e \<Rightarrow> Inl e
                | Inr _ \<Rightarrow>
                    if \<not> res_ok r
                    then Inl (ResourceFetchFailed u (res_status r) (res_statusText r))
                    else out)"
  using assms
  by (auto simp: mcpReadResource_def Let_def split: sum.splits option.splits if_splits)

lemma toMCPContent_object:
  "toMCPContent r = Inr content \<Longrightarrow> \<exists>kvs. content = JObj kvs"
  by (cases "res_json r"; cases "the (res_json r)")
     (auto simp: toMCPContent_def makeTextContent_def Let_def split: if_splits)

subsection \<open>Objects and query parameters\<close>

lemma map_of_obj_replace:
  "map_of (obj_replace kvs k v) x =
     (if x = k \<and> k \<in> fst ` set kvs then Some v else map_of kvs x)"
  by (induction kvs) (auto simp: rev_image_eqI)

lemma map_of_obj_insert_index:
  "k \<notin> fst ` set kvs \<Longrightarrow>
   map_of (obj_insert_index kvs k v) x = (if x = k then Some v else map_of kvs x)"
  by (induction kvs) auto

lemma obj_set_present:
  "k \<in> fst ` set kvs \<Longrightarrow> obj_set kvs k v = obj_replace kvs k v"
  by (simp add: obj_set_def map_of_eq_None_iff)

lemma obj_set_absent:
  "k \<notin> fst ` set kvs \<Longrightarrow>
   obj_set kvs k v = (if is_array_index k then obj_insert_index kvs k v else kvs @ [(k, v)])"
  by (simp add: obj_set_def map_of_eq_None_iff)

lemma map_of_obj_set: "map_of (obj_set kvs k v) x = (if x = k then Some v else map_of kvs x)"
proof (cases "k \<in> fst ` set kvs")
  case True
  then show ?thesis by (simp add: obj_set_present map_of_obj_replace)
next
  case False
  then have "map_of kvs k = None" by (simp add: map_of_eq_None_iff)
  with False show ?thesis
    by (auto simp: obj_set_absent map_of_obj_insert_index map_add_def split: option.splits)
qed

subsection \<open>The initializer\<close>

lemma js_get_nonnull: "m \<noteq> JNull \<Longrightarrow> js_get m n = Inr (js_prop m n)"
  by (cases m) auto

lemma fetchManifestSection_log:
  "snd (fetchManifestSection c base hs n mv log) =
     log @ (case mv of None \<Rightarrow> [] | Some v \<Rightarrow>
              if truthy v then [getUrl (Some (combineURLs base (section_path n v))) hs] else [])"
  by (simp add: fetchManifestSection_def Let_def split: option.splits)

lemma start_sections_log:
  "m \<noteq> JNull \<Longrightarrow>
   snd (start_sections c base hs m ns log) = log @ declared_requests base hs m ns"
proof (induction ns arbitrary: log)
  case Nil
  then show ?case by simp
next
  case (Cons n ns)
  obtain p l1 where f: "fetchManifestSection c base hs n (js_prop m n) log = (p, l1)"
    by (cases "fetchManifestSection c base hs n (js_prop m n) log")
  obtain rest l2 where s: "start_sections c base hs m ns l1 = (rest, l2)"
    by (cases "start_sections c base hs m ns l1")
  from f have l1: "l1 = log @ (case js_prop m n of None \<Rightarrow> [] | Some v \<Rightarrow>
              if truthy v then [getUrl (Some (combineURLs base (section_path n v))) hs] else [])"
    using fetchManifestSection_log [of c base hs n "js_prop m n" log] by simp
  from s Cons have l2: "l2 = l1 @ declared_requests base hs m ns"
    using Cons.IH [of l1] by simp
  show ?case using Cons.prems f s l1 l2
    by (simp add: js_get_nonnull split: option.splits)
qed

text \<open>What each promise is, when the calls were all made.\<close>

lemma start_sections_promises:
  "start_sections c base hs m ns log = (Inr ps, log') \<Longrightarrow>
   list_all2 (\<lambda>n p. \<exists>lg. p = fst (fetchManifestSection c base hs n (js_prop m n) lg)) ns ps"
proof (induction ns arbitrary: log ps log')
  case Nil
  then show ?case by simp
next
  case (Cons n ns)
  show ?case
  proof (cases "m = JNull")
    case True
    with Cons.prems show ?thesis by simp
  next
    case False
    obtain p l1 where f: "fetchManifestSection c base hs n (js_prop m n) log = (p, l1)"
      by (cases "fetchManifestSection c base hs n (js_prop m n) log")
    obtain rest l2 where s: "start_sections c base hs m ns l1 = (rest, l2)"
      by (cases "start_sections c base hs m ns l1")
    from Cons.prems False f s obtain ps' where r: "rest = Inr ps'" and ps: "ps = p # ps'"
      by (auto simp: js_get_nonnull split: sum.splits)
    from s r have "list_all2 (\<lambda>n p. \<exists>lg. p = fst (fetchManifestSection c base hs n (js_prop m n) lg)) ns ps'"
      using Cons.IH by simp
    moreover have "\<exists>lg. p = fst (fetchManifestSection c base hs n (js_prop m n) lg)"
      using f by (metis fst_conv)
    ultimately show ?thesis using ps by simp
  qed
qed

lemma start_sections_Inr:
  "m \<noteq> JNull \<Longrightarrow> \<exists>ps. fst (start_sections c base hs m ns log) = Inr ps"
proof (induction ns arbitrary: log)
  case Nil
  then show ?case by simp
next
  case (Cons n ns)
  obtain p l1 where f: "fetchManifestSection c base hs n (js_prop m n) log = (p, l1)"
    by (cases "fetchManifestSection c base hs n (js_prop m n) log")
  obtain ps where "fst (start_sections c base hs m ns l1) = Inr ps"
    using Cons.IH [OF Cons.prems, of l1] by auto
  then show ?case using Cons.prems f
    by (cases "start_sections c base hs m ns l1") (simp add: js_get_nonnull)
qed

lemma fetchManifestSection_failed:
  assumes "truthy v"
    and "fetch_failed (c log (getUrl (Some (combineURLs base (section_path n v))) hs))"
  shows "\<exists>e. fst (fetchManifestSection c base hs n (Some v) log) = Inl e"
proof (cases "c log (getUrl (Some (combineURLs base (section_path n v))) hs)")
  case (Inl e)
  with assms show ?thesis by (simp add: fetchManifestSection_def Let_def)
next
  case (Inr res)
  with assms show ?thesis by (simp add: fetchManifestSection_def Let_def)
qed

lemma start_sections_failure:
  assumes "m \<noteq> JNull" and "n \<in> set ns" and "js_prop m n = Some v" and "truthy v"
    and "fetch_failed
           (c (log @ declared_requests base hs m (takeWhile (\<lambda>x. x \<noteq> n) ns))
              (getUrl (Some (combineURLs base (section_path n v))) hs))"
  shows "\<exists>ps e. fst (start_sections c base hs m ns log) = Inr ps \<and> Inl e \<in> set ps"
  using assms(2,5)
proof (induction ns arbitrary: log)
  case Nil
  then show ?case by simp
next
  case (Cons n' ns)
  obtain p l1 where f: "fetchManifestSection c base hs n' (js_prop m n') log = (p, l1)"
    by (cases "fetchManifestSection c base hs n' (js_prop m n') log")
  obtain ps' where s: "fst (start_sections c base hs m ns l1) = Inr ps'"
    using start_sections_Inr [OF assms(1)] by blast
  have whole: "fst (start_sections c base hs m (n' # ns) log) = Inr (p # ps')"
    using assms(1) f s by (cases "start_sections c base hs m ns l1") (simp add: js_get_nonnull)
  show ?case
  proof (cases "n' = n")
    case True
    with Cons.prems have "fetch_failed (c log (getUrl (Some (combineURLs base (section_path n v))) hs))"
      by simp
    then obtain e where "fst (fetchManifestSection c base hs n (Some v) log) = Inl e"
      using fetchManifestSection_failed [OF assms(4)] by blast
    with f True assms(3) have "p = Inl e" by simp
    with whole show ?thesis by auto
  next
    case False
    have l1: "l1 = log @ declared_requests base hs m [n']"
      using f fetchManifestSection_log [of c base hs n' "js_prop m n'" log]
      by (simp split: option.splits)
    have "declared_requests base hs m (takeWhile (\<lambda>x. x \<noteq> n) (n' # ns)) =
          declared_requests base hs m [n'] @ declared_requests base hs m (takeWhile (\<lambda>x. x \<noteq> n) ns)"
      using False by (simp split: option.splits)
    with Cons.prems(2) l1
    have "fetch_failed
           (c (l1 @ declared_requests base hs m (takeWhile (\<lambda>x. x \<noteq> n) ns))
              (getUrl (Some (combineURLs base (section_path n v))) hs))"
      by simp
    moreover from Cons.prems(1) False have "n \<in> set ns" by simp
    ultimately obtain ps e where
      "fst (start_sections c base hs m ns l1) = Inr ps" "Inl e \<in> set ps"
      using Cons.IH by blast
    with s whole show ?thesis by auto
  qed
qed

lemma first_rejection_append:
  "first_rejection (xs @ ys) ps =
     (case first_rejection xs ps of Some e \<Rightarrow> Some e | None \<Rightarrow> first_rejection ys ps)"
  by (induction xs) (auto split: sum.splits)

lemma first_rejection_None:
  "first_rejection xs ps = None \<Longrightarrow> i \<in> set xs \<Longrightarrow> i < length ps \<Longrightarrow> \<exists>v. ps ! i = Inr v"
  by (induction xs) (auto split: sum.splits if_splits)

lemma Promise_all_Inr:
  assumes "Promise_all settle ps = Inr ss"
  shows "ps = map Inr ss"
proof -
  have none: "first_rejection (settle @ [0 ..< length ps]) ps = None"
    and ss: "ss = resolved_values ps"
    using assms by (auto simp: Promise_all_def split: option.splits)
  then have "first_rejection [0 ..< length ps] ps = None"
    by (simp add: first_rejection_append split: option.splits)
  then have all: "\<forall>i < length ps. \<exists>v. ps ! i = Inr v"
    using first_rejection_None [of "[0 ..< length ps]" ps] by auto
  have "(\<forall>p \<in> set qs. \<exists>v. p = Inr v) \<Longrightarrow> qs = map Inr (resolved_values qs)" for qs :: "(error + 'a) list"
    by (induction qs) auto
  moreover from all have "\<forall>p \<in> set ps. \<exists>v. p = Inr v"
    by (metis in_set_conv_nth)
  ultimately show ?thesis using ss by simp
qed

lemma Promise_all_rejects:
  assumes "Inl e \<in> set ps"
  shows "\<exists>e'. Promise_all settle ps = Inl e'"
proof (cases "Promise_all settle ps")
  case (Inl e')
  then show ?thesis by blast
next
  case (Inr ss)
  then have "ps = map Inr ss" by (rule Promise_all_Inr)
  with assms show ?thesis by auto
qed

lemma assign_section_None: "assign_section st None = st"
  by simp

lemma assign_section_same:
  assumes "n \<in> set sectionNames"
  shows "section_data (assign_section st (Some (n, j, u))) n = Some j \<and>
         section_url (assign_section st (Some (n, j, u))) n = Some u"
proof -
  from assms consider "n = ''tools''" | "n = ''prompts''" | "n = ''resources''"
    | "n = ''resourceTemplates''"
    by (auto simp: sectionNames_def)
  then show ?thesis
    by cases (simp_all add: section_data_def section_url_def)
qed

lemma assign_section_other:
  assumes "s = None \<or> (\<exists>j u. s = Some (n', j, u))" and "n' \<noteq> n"
  shows "section_data (assign_section st s) n = section_data st n \<and>
         section_url (assign_section st s) n = section_url st n"
proof (cases s)
  case None
  then show ?thesis by simp
next
  case (Some a)
  with assms(1) obtain j u where s: "s = Some (n', j, u)" by auto
  consider "n' = ''tools''" | "n' = ''prompts''" | "n' = ''resources''"
    | "n' = ''resourceTemplates''"
    | "n' \<noteq> ''tools''" "n' \<noteq> ''prompts''" "n' \<noteq> ''resources''" "n' \<noteq> ''resourceTemplates''"
    by blast
  then show ?thesis
  proof cases
    case 1
    with assms(2) have "n \<noteq> ''tools''" by simp
    with 1 s show ?thesis by (simp add: section_data_def section_url_def)
  next
    case 2
    with assms(2) have "n \<noteq> ''prompts''" by simp
    with 2 s show ?thesis by (simp add: section_data_def section_url_def)
  next
    case 3
    with assms(2) have "n \<noteq> ''resources''" by simp
    with 3 s show ?thesis by (simp add: section_data_def section_url_def)
  next
    case 4
    with assms(2) have "n \<noteq> ''resourceTemplates''" by simp
    with 4 s show ?thesis by (simp add: section_data_def section_url_def)
  next
    case 5
    with s show ?thesis by simp
  qed
qed

lemma initial_state_sections:
  "section_data (initial_state cfg m) n = None \<and> section_url (initial_state cfg m) n = None"
  by (simp add: initial_state_def section_data_def section_url_def)

lemma fetchManifestSection_success:
  assumes "fst (fetchManifestSection c base hs n mv lg) = Inr contrib"
  shows "(contrib = None \<and> \<not> truthy_opt mv) \<or>
         (\<exists>j v. mv = Some v \<and> truthy v \<and>
                 contrib = Some (n, j, combineURLs base (section_path n v)))"
  using assms
  by (auto simp: fetchManifestSection_def Let_def split: option.splits sum.splits if_splits)

lemma initialize_success:
  assumes "initializeServerState c cfg settle log = (Inr st, log')"
  shows "\<exists>r0 m ss.
           c log (getUrl (Some (baseUrl cfg)) (headers cfg)) = Inr r0 \<and> res_ok r0 \<and>
           res_json r0 = Some m \<and> m \<noteq> JNull \<and>
           fst (start_sections c (baseUrl cfg) (headers cfg) m sectionNames
                  (log @ [getUrl (Some (baseUrl cfg)) (headers cfg)])) = Inr (map Inr ss) \<and>
           st = foldl assign_section (initial_state cfg m) ss"
proof -
  let ?req = "getUrl (Some (baseUrl cfg)) (headers cfg)"
  from assms obtain r0 where r0: "c log ?req = Inr r0"
    by (cases "c log ?req") (auto simp: initializeServerState_def Let_def)
  from assms r0 have ok: "res_ok r0"
    by (auto simp: initializeServerState_def Let_def split: if_splits)
  from assms r0 ok obtain m where m: "res_json r0 = Some m"
    by (cases "res_json r0") (auto simp: initializeServerState_def Let_def)
  obtain started log2 where s: "start_sections c (baseUrl cfg) (headers cfg) m sectionNames (log @ [?req]) = (started, log2)"
    by (cases "start_sections c (baseUrl cfg) (headers cfg) m sectionNames (log @ [?req])")
  from assms r0 ok m s obtain ps where ps: "started = Inr ps"
    by (cases started) (auto simp: initializeServerState_def Let_def)
  from assms r0 ok m s ps obtain ss where ss: "Promise_all settle ps = Inr ss"
    and st: "st = foldl assign_section (initial_state cfg m) ss"
    by (cases "Promise_all settle ps") (auto simp: initializeServerState_def Let_def)
  have nn: "m \<noteq> JNull"
    using s ps by (auto simp: sectionNames_def)
  from ss have "ps = map Inr ss" by (rule Promise_all_Inr)
  with r0 ok m s ps st nn show ?thesis by auto
qed

lemma initialize_log:
  assumes "c log (getUrl (Some (baseUrl cfg)) (headers cfg)) = Inr r0"
    and "res_ok r0" and "res_json r0 = Some m" and "m \<noteq> JNull"
  shows "snd (initializeServerState c cfg settle log) =
           log @ getUrl (Some (baseUrl cfg)) (headers cfg) #
             declared_requests (baseUrl cfg) (headers cfg) m sectionNames"
proof -
  let ?log1 = "log @ [getUrl (Some (baseUrl cfg)) (headers cfg)]"
  obtain started log2 where s: "start_sections c (baseUrl cfg) (headers cfg) m sectionNames ?log1 = (started, log2)"
    by (cases "start_sections c (baseUrl cfg) (headers cfg) m sectionNames ?log1")
  then have "log2 = ?log1 @ declared_requests (baseUrl cfg) (headers cfg) m sectionNames"
    using start_sections_log [OF assms(4), of c "baseUrl cfg" "headers cfg" sectionNames ?log1] by simp
  with assms s show ?thesis
    by (auto simp: initializeServerState_def Let_def split: sum.splits)
qed

lemma contribution_shape:
  assumes "fst (fetchManifestSection c base hs n mv lg) = Inr s"
  shows "s = None \<or> (\<exists>j u. s = Some (n, j, u))"
  using fetchManifestSection_success [OF assms] by auto

lemma sections_state:
  assumes "list_all2 (\<lambda>n p. \<exists>lg. p = fst (fetchManifestSection c base hs n (js_prop m n) lg))
             sectionNames (map Inr ss)"
    and "st = foldl assign_section (initial_state cfg m) ss"
    and "n \<in> set sectionNames"
  shows "(section_data st n \<noteq> None) = truthy_opt (js_prop m n) \<and>
         (section_url st n \<noteq> None) = truthy_opt (js_prop m n) \<and>
         (\<forall>v. js_prop m n = Some v \<and> truthy v \<longrightarrow>
               section_url st n = Some (combineURLs base (section_path n v)))"
proof -
  from assms(1) obtain s1 s2 s3 s4 where ss: "ss = [s1, s2, s3, s4]"
    by (auto simp: sectionNames_def list_all2_Cons1 map_eq_Cons_conv)
  from assms(1) ss obtain l1 l2 l3 l4 where
    f1: "fst (fetchManifestSection c base hs ''tools'' (js_prop m ''tools'') l1) = Inr s1" and
    f2: "fst (fetchManifestSection c base hs ''prompts'' (js_prop m ''prompts'') l2) = Inr s2" and
    f3: "fst (fetchManifestSection c base hs ''resources'' (js_prop m ''resources'') l3) = Inr s3" and
    f4: "fst (fetchManifestSection c base hs ''resourceTemplates'' (js_prop m ''resourceTemplates'') l4) = Inr s4"
    by (auto simp: sectionNames_def)
  note sh1 = contribution_shape [OF f1] and sh2 = contribution_shape [OF f2]
    and sh3 = contribution_shape [OF f3] and sh4 = contribution_shape [OF f4]
  define st0 where "st0 = initial_state cfg m"
  define st1 where "st1 = assign_section st0 s1"
  define st2 where "st2 = assign_section st1 s2"
  define st3 where "st3 = assign_section st2 s3"
  have st: "st = assign_section st3 s4"
    using assms(2) ss by (simp add: st0_def st1_def st2_def st3_def)
  have z: "section_data st0 k = None \<and> section_url st0 k = None" for k
    unfolding st0_def by (rule initial_state_sections)
  have own: "(section_data (assign_section st' s) k \<noteq> None) = truthy_opt (js_prop m k) \<and>
             (section_url (assign_section st' s) k \<noteq> None) = truthy_opt (js_prop m k) \<and>
             (\<forall>v. js_prop m k = Some v \<and> truthy v \<longrightarrow>
               section_url (assign_section st' s) k = Some (combineURLs base (section_path k v)))"
    if f: "fst (fetchManifestSection c base hs k (js_prop m k) lg) = Inr s"
      and d: "section_data st' k = None" and u: "section_url st' k = None"
      and k: "k \<in> set sectionNames"
    for st' s k lg
  proof -
    from fetchManifestSection_success [OF f]
    consider "s = None" "\<not> truthy_opt (js_prop m k)"
      | j v where "js_prop m k = Some v" "truthy v"
          "s = Some (k, j, combineURLs base (section_path k v))"
      by blast
    then show ?thesis
    proof cases
      case 1
      with d u show ?thesis by (cases "js_prop m k") auto
    next
      case 2
      with assign_section_same [OF k, of st' j "combineURLs base (section_path k v)"]
      show ?thesis by simp
    qed
  qed
  from assms(3) consider "n = ''tools''" | "n = ''prompts''" | "n = ''resources''"
    | "n = ''resourceTemplates''"
    by (auto simp: sectionNames_def)
  then show ?thesis
  proof cases
    case 1
    have a: "section_data st n = section_data st1 n \<and> section_url st n = section_url st1 n"
      using assign_section_other [OF sh2, of n st1] assign_section_other [OF sh3, of n st2]
        assign_section_other [OF sh4, of n st3] 1
      by (simp add: st st2_def st3_def)
    show ?thesis
      using own [OF f1, of st0] z [of "''tools''"] a 1 assms(3) by (simp add: st1_def)
  next
    case 2
    have b: "section_data st1 n = None \<and> section_url st1 n = None"
      using assign_section_other [OF sh1, of n st0] z [of n] 2 by (simp add: st1_def)
    have a: "section_data st n = section_data st2 n \<and> section_url st n = section_url st2 n"
      using assign_section_other [OF sh3, of n st2] assign_section_other [OF sh4, of n st3] 2
      by (simp add: st st3_def)
    show ?thesis
      using own [OF f2, of st1] b a 2 assms(3) by (simp add: st2_def)
  next
    case 3
    have b: "section_data st2 n = None \<and> section_url st2 n = None"
      using assign_section_other [OF sh1, of n st0] assign_section_other [OF sh2, of n st1]
        z [of n] 3
      by (simp add: st1_def st2_def)
    have a: "section_data st n = section_data st3 n \<and> section_url st n = section_url st3 n"
      using assign_section_other [OF sh4, of n st3] 3 by (simp add: st)
    show ?thesis
      using own [OF f3, of st2] b a 3 assms(3) by (simp add: st3_def)
  next
    case 4
    have b: "section_data st3 n = None \<and> section_url st3 n = None"
      using assign_section_other [OF sh1, of n st0] assign_section_other [OF sh2, of n st1]
        assign_section_other [OF sh3, of n st2] z [of n] 4
      by (simp add: st1_def st2_def st3_def)
    show ?thesis
      using own [OF f4, of st3] b 4 assms(3) by (simp add: st)
  qed
qed

lemma js_set_reads_back:
  "js_prop (js_set (JObj kvs) k v) k = Some v"
  by (simp add: map_of_obj_set)

lemma assign_section_keeps:
  "manifest (assign_section st s) = manifest st \<and> config (assign_section st s) = config st \<and>
   state_headers (assign_section st s) = state_headers st \<and>
   state_baseUrl (assign_section st s) = state_baseUrl st"
proof (cases s)
  case None
  then show ?thesis by simp
next
  case (Some a)
  obtain n j u where "a = (n, j, u)" by (cases a)
  with Some show ?thesis by simp
qed

lemma foldl_assign_section_keeps:
  "manifest (foldl assign_section st ss) = manifest st \<and>
   config (foldl assign_section st ss) = config st \<and>
   state_headers (foldl assign_section st ss) = state_headers st \<and>
   state_baseUrl (foldl assign_section st ss) = state_baseUrl st"
  by (induction ss arbitrary: st) (simp_all add: assign_section_keeps)

lemma declared_requests_mem:
  "n \<in> set ns \<Longrightarrow> js_prop m n = Some v \<Longrightarrow> truthy v \<Longrightarrow>
   getUrl (Some (combineURLs base (section_path n v))) hs \<in> set (declared_requests base hs m ns)"
  by (induction ns) (auto split: option.splits)

lemma declared_requests_removeAll:
  "\<not> truthy_opt (js_prop m n) \<Longrightarrow>
   declared_requests base hs m (removeAll n ns) = declared_requests base hs m ns"
  by (induction ns) (auto split: option.splits)

lemma fetchManifestSection_falsy:
  "\<not> truthy_opt mv \<Longrightarrow> fetchManifestSection c base hs n mv lg = (Inr None, lg)"
  by (cases mv) (simp_all add: fetchManifestSection_def)

lemma start_sections_cong:
  assumes "m \<noteq> JNull" and "m' \<noteq> JNull"
    and "\<And>k. k \<in> set ns \<Longrightarrow>
           js_prop m' k = js_prop m k \<or>
           (\<not> truthy_opt (js_prop m k) \<and> \<not> truthy_opt (js_prop m' k))"
  shows "start_sections c base hs m' ns lg = start_sections c base hs m ns lg"
  using assms(3)
proof (induction ns arbitrary: lg)
  case Nil
  then show ?case by simp
next
  case (Cons n ns)
  have same: "fetchManifestSection c base hs n (js_prop m' n) lg =
              fetchManifestSection c base hs n (js_prop m n) lg"
    using Cons.prems [of n] by (auto simp: fetchManifestSection_falsy)
  have "start_sections c base hs m' ns l = start_sections c base hs m ns l" for l
    using Cons.IH Cons.prems by simp
  with same show ?case
    using assms(1,2) by (simp add: js_get_nonnull)
qed

lemma map_of_filter_key:
  "map_of (filter (\<lambda>kv. fst kv \<noteq> n) kvs) k = (if k = n then None else map_of kvs k)"
  by (induction kvs) auto

lemma map_of_map_key:
  "map_of (map (\<lambda>kv. if fst kv = n then (n, v) else kv) kvs) k =
     (if k = n \<and> map_of kvs n \<noteq> None then Some v else map_of kvs k)"
  by (induction kvs) auto

subsection \<open>Unfolding the model on concrete inputs\<close>

lemmas eval_defs =
  show_nat.simps digit_char_def hex_upper_def hex_lower_def
  urlencode_def urlencode_char_def URLSearchParams_toString_def params_of_def
  JSON_quote_def json_quote_char_def b64_char_def
  createMockResponse_def res_ok_def contentType_of_def getUrl_def postUrl_def
  combineURLs_def replace_trailing_slashes_def replace_leading_slashes_def
  section_path_def sectionNames_def Let_def
  obj_spread_def obj_set_def is_array_index_def is_digit_def index_val_def
  combineURLs_js_def handleHttpError_def toMCPContent_def makeTextContent_def
  fetchManifestSection_def Promise_all_def initial_state_def

lemmas example_defs =
  calc_manifest_def calc_tools_def calc_config_def calc_client_def calc_state_def
  html_error_client_def json_error_response_def json_error_client_def
  manifest_only_client_def empty_tools_manifest_def empty_tools_client_def
  templates_manifest_def templates_client_def docs_state_def
  not_found_response_def unauthorized_response_def docs_client_def other_file_client_def
  number_response_def large_number_response_def png_response_def untyped_response_def

section \<open>The claims\<close>

text \<open>
  C7. Take a base \<open>b\<close> that does not end with a slash and a relative path \<open>r\<close> that
  does not start with one (every string is such a string followed, or preceded, by
  slashes). With any number of slashes appended to \<open>b\<close> and prepended to \<open>r\<close>, in
  particular 0, 1 or 2, and the relative path so obtained not empty, \<open>combineURLs\<close>
  returns \<open>b\<close>, one slash, and \<open>r\<close>. With an empty relative path it returns the
  base unchanged, whatever the base.
\<close>

theorem combineURLs_one_slash:
  assumes "b = [] \<or> last b \<noteq> CHR ''/''" and "r = [] \<or> hd r \<noteq> CHR ''/''"
  shows "(replicate j CHR ''/'' @ r \<noteq> [] \<longrightarrow>
            combineURLs (b @ replicate i CHR ''/'') (replicate j CHR ''/'' @ r) = b @ ''/'' @ r) \<and>
         combineURLs base [] = base"
  using replace_trailing_slashes_id [OF assms(1)] replace_leading_slashes_id [OF assms(2)]
  by (simp add: combineURLs_def replace_trailing_slashes_append replace_leading_slashes_prepend)

theorem combineURLs_one_slash_witness:
  "last ''http://h/api'' \<noteq> CHR ''/'' \<and> hd ''tools'' \<noteq> CHR ''/'' \<and>
   combineURLs ''http://h/api//'' ''//tools'' = ''http://h/api/tools'' \<and>
   combineURLs ''http://h/api/'' ''tools'' = ''http://h/api/tools'' \<and>
   combineURLs ''http://h/api'' ''/tools'' = ''http://h/api/tools'' \<and>
   combineURLs ''http://h/api'' ''tools'' = ''http://h/api/tools'' \<and>
   combineURLs ''http://h/api//'' [] = ''http://h/api//''"
proof -
  have b: "''http://h/api'' = [] \<or> last ''http://h/api'' \<noteq> CHR ''/''" by simp
  have r: "''tools'' = [] \<or> hd ''tools'' \<noteq> CHR ''/''" by simp
  from combineURLs_one_slash [OF b r, of 2 2 "''http://h/api//''"]
    combineURLs_one_slash [OF b r, of 0 1 "''http://h/api//''"]
    combineURLs_one_slash [OF b r, of 1 0 "''http://h/api//''"]
    combineURLs_one_slash [OF b r, of 0 0 "''http://h/api//''"]
  show ?thesis by (simp add: numeral_2_eq_2)
qed

text \<open>
  C1 (the headers of the configuration reach the dispatchers). The code does not do
  this: the initializer stores the headers under \<open>config\<close>, while the dispatchers
  read the top-level property \<open>state_headers\<close>, which the initializer never sets.
  For the calculator server started with an \<^verbatim>\<open>Authorization\<close> header, the manifest
  and the tool listing are fetched with the header, and the tool call made with the
  state that initialization returned is posted without any header.
\<close>

theorem initialize_then_callTool_sends_no_headers:
  "initializeServerState calc_client calc_config [] [] =
     (Inr calc_state,
      [getUrl (Some ''http://127.0.0.1'') (Some [(''Authorization'', ''Bearer token'')]),
       getUrl (Some ''http://127.0.0.1/tools'') (Some [(''Authorization'', ''Bearer token'')])]) \<and>
   state_headers calc_state = None \<and>
   config calc_state = Some calc_config \<and>
   mcpCallTool calc_client calc_state ''add'' (Some (JObj [(''a'', JNum ''1''), (''b'', JNum ''2'')])) [] =
     (Inr (makeTextContent ''3''),
      [postUrl (Some ''http://127.0.0.1/tools/add'')
         (Some (JObj [(''a'', JNum ''1''), (''b'', JNum ''2'')])) None])"
  by (simp add: initializeServerState_def mcpCallTool_def eval_defs example_defs)

text \<open>
  C2 (the request of a resource read carries \<^verbatim>\<open>uri=u\<close>, whatever the arguments). The
  code does not do this: the query is built from
  \<^verbatim>\<open>{uri: resourceUri, ...resourceArguments}\<close>, so an argument named \<^verbatim>\<open>uri\<close> replaces
  the uri that was looked up. Reading \<^verbatim>\<open>file://readme.txt\<close> with the arguments
  \<^verbatim>\<open>{uri: "file://other.txt"}\<close> passes the lookup of \<^verbatim>\<open>file://readme.txt\<close>, asks the
  server for \<^verbatim>\<open>file://other.txt\<close>, and returns what the server sends labelled with
  \<^verbatim>\<open>file://readme.txt\<close>.
\<close>

theorem readResource_args_override_uri:
  "mcpReadResource other_file_client docs_state ''file://readme.txt''
     (Some (JObj [(''uri'', JStr ''file://other.txt'')])) [] =
     (Inr (JObj [(''contents'', JArr [JObj
        [(''uri'', JStr ''file://readme.txt''), (''mimeType'', JStr ''text/plain''),
         (''text'', JStr ''contents of other.txt'')]])]),
      [getUrl (Some ''http://127.0.0.1/resources?uri=file%3A%2F%2Fother.txt'')
         (Some [(''X-Custom-Header'', ''value'')])])"
  by (simp add: mcpReadResource_def toMCPResourceContent_def isTextContent_def
      eval_defs example_defs)

text \<open>
  C3, as the claim states it, fails: a tool call that is answered with a status outside
  200 to 299 (other than 401 and 403) is not always turned into a result. When the
  answer has a content type \<open>toMCPContent\<close> does not support, the call fails. Here the
  tool answers 500 with an HTML page.
\<close>

theorem callTool_non2xx_can_fail:
  "mcpCallTool html_error_client calc_state ''add'' None [] =
     (Inl (UnsupportedContentType ''text/html''),
      [postUrl (Some ''http://127.0.0.1/tools/add'') None None])"
  by (simp add: mcpCallTool_def eval_defs example_defs)

text \<open>
  C3, amended. Whenever a dispatcher has issued its request and the client has answered
  with a response: a status 401 makes \<open>mcpCallTool\<close>, \<open>mcpGetPrompt\<close> and
  \<open>mcpReadResource\<close> fail with \<open>Unauthorized\<close> and a status 403 with
  \<open>Forbidden\<close>, whatever the body and the content type. For any other status outside
  200 to 299, \<open>mcpGetPrompt\<close> fails with \<open>PromptFetchFailed\<close> and
  \<open>mcpReadResource\<close> with \<open>ResourceFetchFailed\<close>, while \<open>mcpCallTool\<close> returns
  the content \<open>toMCPContent\<close> produces with \<^verbatim>\<open>isError\<close> set to \<^verbatim>\<open>true\<close>, and fails
  only with the error of \<open>toMCPContent\<close> when that fails.
\<close>

theorem dispatcher_status_handling:
  "(mcpCallTool c1 st1 n1 a1 log1 = (out1, log1 @ [q1]) \<and> c1 log1 q1 = Inr r1 \<longrightarrow>
      (res_status r1 = 401 \<longrightarrow> out1 = Inl Unauthorized) \<and>
      (res_status r1 = 403 \<longrightarrow> out1 = Inl Forbidden) \<and>
      (res_status r1 \<noteq> 401 \<and> res_status r1 \<noteq> 403 \<and> \<not> res_ok r1 \<longrightarrow>
         (\<forall>content. toMCPContent r1 = Inr content \<longrightarrow>
            out1 = Inr (js_set content ''isError'' (JBool True)) \<and>
            js_prop (js_set content ''isError'' (JBool True)) ''isError'' = Some (JBool True)) \<and>
         (\<forall>e. toMCPContent r1 = Inl e \<longrightarrow> out1 = Inl e))) \<and>
   (mcpGetPrompt c2 st2 n2 a2 log2 = (out2, log2 @ [q2]) \<and> c2 log2 q2 = Inr r2 \<longrightarrow>
      (res_status r2 = 401 \<longrightarrow> out2 = Inl Unauthorized) \<and>
      (res_status r2 = 403 \<longrightarrow> out2 = Inl Forbidden) \<and>
      (res_status r2 \<noteq> 401 \<and> res_status r2 \<noteq> 403 \<and> \<not> res_ok r2 \<longrightarrow>
         out2 = Inl (PromptFetchFailed n2 (res_status r2) (res_statusText r2)))) \<and>
   (mcpReadResource c3 st3 n3 a3 log3 = (out3, log3 @ [q3]) \<and> c3 log3 q3 = Inr r3 \<longrightarrow>
      (res_status r3 = 401 \<longrightarrow> out3 = Inl Unauthorized) \<and>
      (res_status r3 = 403 \<longrightarrow> out3 = Inl Forbidden) \<and>
      (res_status r3 \<noteq> 401 \<and> res_status r3 \<noteq> 403 \<and> \<not> res_ok r3 \<longrightarrow>
         out3 = Inl (ResourceFetchFailed n3 (res_status r3) (res_statusText r3))))"
proof (intro conjI impI; (elim conjE)?)
  assume a: "mcpCallTool c1 st1 n1 a1 log1 = (out1, log1 @ [q1])" "c1 log1 q1 = Inr r1"
  note ans = mcpCallTool_answer [OF a]
  show "res_status r1 = 401 \<Longrightarrow> out1 = Inl Unauthorized"
    using ans by (simp add: handleHttpError_def)
  show "res_status r1 = 403 \<Longrightarrow> out1 = Inl Forbidden"
    using ans by (simp add: handleHttpError_def)
  show "\<forall>content. toMCPContent r1 = Inr content \<longrightarrow>
          out1 = Inr (js_set content ''isError'' (JBool True)) \<and>
          js_prop (js_set content ''isError'' (JBool True)) ''isError'' = Some (JBool True)"
    if "res_status r1 \<noteq> 401" "res_status r1 \<noteq> 403" "\<not> res_ok r1"
  proof (intro allI impI)
    fix content
    assume t: "toMCPContent r1 = Inr content"
    then obtain kvs where "content = JObj kvs"
      using toMCPContent_object by blast
    then have "js_prop (js_set content ''isError'' (JBool True)) ''isError'' = Some (JBool True)"
      by (simp only: js_set_reads_back)
    moreover have "out1 = Inr (js_set content ''isError'' (JBool True))"
      using ans t that by (simp add: handleHttpError_def)
    ultimately show "out1 = Inr (js_set content ''isError'' (JBool True)) \<and>
          js_prop (js_set content ''isError'' (JBool True)) ''isError'' = Some (JBool True)"
      by simp
  qed
  show "\<forall>e. toMCPContent r1 = Inl e \<longrightarrow> out1 = Inl e"
    if "res_status r1 \<noteq> 401" "res_status r1 \<noteq> 403" "\<not> res_ok r1"
    using ans that by (simp add: handleHttpError_def)
next
  assume a: "mcpGetPrompt c2 st2 n2 a2 log2 = (out2, log2 @ [q2])" "c2 log2 q2 = Inr r2"
  note ans = mcpGetPrompt_answer [OF a]
  show "res_status r2 = 401 \<Longrightarrow> out2 = Inl Unauthorized"
    using ans by (simp add: handleHttpError_def)
  show "res_status r2 = 403 \<Longrightarrow> out2 = Inl Forbidden"
    using ans by (simp add: handleHttpError_def)
  show "out2 = Inl (PromptFetchFailed n2 (res_status r2) (res_statusText r2))"
    if "res_status r2 \<noteq> 401" "res_status r2 \<noteq> 403" "\<not> res_ok r2"
    using ans that by (simp add: handleHttpError_def)
next
  assume a: "mcpReadResource c3 st3 n3 a3 log3 = (out3, log3 @ [q3])" "c3 log3 q3 = Inr r3"
  note ans = mcpReadResource_answer [OF a]
  show "res_status r3 = 401 \<Longrightarrow> out3 = Inl Unauthorized"
    using ans by (simp add: handleHttpError_def)
  show "res_status r3 = 403 \<Longrightarrow> out3 = Inl Forbidden"
    using ans by (simp add: handleHttpError_def)
  show "out3 = Inl (ResourceFetchFailed n3 (res_status r3) (res_statusText r3))"
    if "res_status r3 \<noteq> 401" "res_status r3 \<noteq> 403" "\<not> res_ok r3"
    using ans that by (simp add: handleHttpError_def)
qed

theorem dispatcher_status_handling_witness:
  "mcpCallTool json_error_client calc_state ''add'' None [] =
     (Inr (JObj [(''message'', JStr ''Server Error''), (''isError'', JBool True)]),
      [] @ [postUrl (Some ''http://127.0.0.1/tools/add'') None None]) \<and>
   json_error_client [] (postUrl (Some ''http://127.0.0.1/tools/add'') None None) =
     Inr json_error_response \<and>
   res_status json_error_response = 500 \<and>
   snd (mcpGetPrompt docs_client docs_state ''greet'' None []) =
     [] @ [getUrl (Some ''http://127.0.0.1/prompts/greet'') (state_headers docs_state)] \<and>
   docs_client [] (getUrl (Some ''http://127.0.0.1/prompts/greet'') (state_headers docs_state)) =
     Inr not_found_response \<and>
   fst (mcpGetPrompt docs_client docs_state ''greet'' None []) =
     Inl (PromptFetchFailed ''greet'' 404 ''Not Found'') \<and>
   snd (mcpReadResource docs_client docs_state ''file://readme.txt'' None []) =
     [] @ [getUrl (Some ''http://127.0.0.1/resources?uri=file%3A%2F%2Freadme.txt'')
             (state_headers docs_state)] \<and>
   docs_client []
     (getUrl (Some ''http://127.0.0.1/resources?uri=file%3A%2F%2Freadme.txt'')
        (state_headers docs_state)) = Inr unauthorized_response \<and>
   fst (mcpReadResource docs_client docs_state ''file://readme.txt'' None []) = Inl Unauthorized"
proof -
  let ?q1 = "postUrl (Some ''http://127.0.0.1/tools/add'') None None"
  let ?q2 = "getUrl (Some ''http://127.0.0.1/prompts/greet'') (state_headers docs_state)"
  let ?q3 = "getUrl (Some ''http://127.0.0.1/resources?uri=file%3A%2F%2Freadme.txt'')
               (state_headers docs_state)"
  obtain out1 where o1: "mcpCallTool json_error_client calc_state ''add'' None [] = (out1, [] @ [?q1])"
    by (simp add: mcpCallTool_def eval_defs example_defs)
  have a1: "json_error_client [] ?q1 = Inr json_error_response"
    by (simp add: eval_defs example_defs)
  have s1: "res_status json_error_response = 500" "\<not> res_ok json_error_response"
    by (simp_all add: eval_defs example_defs)
  have t1: "toMCPContent json_error_response = Inr (JObj [(''message'', JStr ''Server Error'')])"
    by (simp add: eval_defs example_defs)
  have j1: "js_set (JObj [(''message'', JStr ''Server Error'')]) ''isError'' (JBool True) =
            JObj [(''message'', JStr ''Server Error''), (''isError'', JBool True)]"
    by (simp add: eval_defs)
  obtain out2 where o2: "mcpGetPrompt docs_client docs_state ''greet'' None [] = (out2, [] @ [?q2])"
    by (simp add: mcpGetPrompt_def eval_defs example_defs)
  have a2: "docs_client [] ?q2 = Inr not_found_response"
    by (simp add: eval_defs example_defs)
  have s2: "res_status not_found_response = 404" "\<not> res_ok not_found_response"
    "res_statusText not_found_response = ''Not Found''"
    by (simp_all add: eval_defs example_defs)
  obtain out3 where o3:
    "mcpReadResource docs_client docs_state ''file://readme.txt'' None [] = (out3, [] @ [?q3])"
    by (simp add: mcpReadResource_def eval_defs example_defs)
  have a3: "docs_client [] ?q3 = Inr unauthorized_response"
    by (simp add: eval_defs example_defs)
  have s3: "res_status unauthorized_response = 401"
    by (simp add: eval_defs example_defs)
  from dispatcher_status_handling [of json_error_client calc_state "''add''" None "[]" out1 ?q1
      json_error_response docs_client docs_state "''greet''" None "[]" out2 ?q2 not_found_response
      docs_client docs_state "''file://readme.txt''" None "[]" out3 ?q3 unauthorized_response]
    o1 a1 s1 t1 j1 o2 a2 s2 o3 a3 s3
  have "out1 = Inr (JObj [(''message'', JStr ''Server Error''), (''isError'', JBool True)])"
    and "out2 = Inl (PromptFetchFailed ''greet'' 404 ''Not Found'')"
    and "out3 = Inl Unauthorized"
    by simp_all
  with o1 a1 s1 o2 a2 o3 a3 show ?thesis by simp
qed

text \<open>
  C4. Initialization is all or nothing. Suppose the manifest was fetched and parsed, it
  declares a section with a truthy value, and the fetch of that section fails: the
  client, asked for the section's URL after the requests issued before it (the manifest
  and the sections declared earlier), throws or answers with a status outside 200 to
  299. Then \<open>initializeServerState\<close> returns an error and no state, whatever the order
  in which the fetches settle.
\<close>

theorem initialize_all_or_nothing:
  assumes "c log (getUrl (Some (baseUrl cfg)) (headers cfg)) = Inr r0"
    and "res_ok r0" and "res_json r0 = Some m"
    and "n \<in> set sectionNames" and "js_prop m n = Some v" and "truthy v"
    and "fetch_failed
           (c (log @ getUrl (Some (baseUrl cfg)) (headers cfg) #
                 declared_requests (baseUrl cfg) (headers cfg) m (takeWhile (\<lambda>x. x \<noteq> n) sectionNames))
              (getUrl (Some (combineURLs (baseUrl cfg) (section_path n v))) (headers cfg)))"
  shows "isl (fst (initializeServerState c cfg settle log))"
proof -
  from assms(5) have nn: "m \<noteq> JNull" by auto
  let ?log1 = "log @ [getUrl (Some (baseUrl cfg)) (headers cfg)]"
  from assms(7) have "fetch_failed
           (c (?log1 @ declared_requests (baseUrl cfg) (headers cfg) m (takeWhile (\<lambda>x. x \<noteq> n) sectionNames))
              (getUrl (Some (combineURLs (baseUrl cfg) (section_path n v))) (headers cfg)))"
    by simp
  then obtain ps e where ps: "fst (start_sections c (baseUrl cfg) (headers cfg) m sectionNames ?log1) = Inr ps"
    and e: "Inl e \<in> set ps"
    using start_sections_failure [OF nn assms(4) assms(5) assms(6)] by blast
  obtain e' where "Promise_all settle ps = Inl e'"
    using Promise_all_rejects [OF e] by blast
  with ps assms(1-3) show ?thesis
    by (cases "start_sections c (baseUrl cfg) (headers cfg) m sectionNames ?log1")
       (simp add: initializeServerState_def Let_def)
qed

theorem initialize_all_or_nothing_witness:
  "manifest_only_client [] (getUrl (Some (baseUrl calc_config)) (headers calc_config)) =
     Inr (createMockResponse (Some ''application/json'') calc_manifest 200 ''OK'') \<and>
   js_prop calc_manifest ''tools'' = Some (JBool True) \<and>
   fetch_failed (manifest_only_client
     [getUrl (Some ''http://127.0.0.1'') (headers calc_config)]
     (getUrl (Some ''http://127.0.0.1/tools'') (headers calc_config))) \<and>
   isl (fst (initializeServerState manifest_only_client calc_config [] []))"
proof -
  let ?r0 = "createMockResponse (Some ''application/json'') calc_manifest 200 ''OK''"
  have h1: "manifest_only_client [] (getUrl (Some (baseUrl calc_config)) (headers calc_config)) = Inr ?r0"
    by (simp add: eval_defs example_defs)
  have h2: "res_ok ?r0" by (simp add: eval_defs example_defs)
  have h3: "res_json ?r0 = Some calc_manifest" by (simp add: eval_defs example_defs)
  have h4: "''tools'' \<in> set sectionNames" by (simp add: sectionNames_def)
  have h5: "js_prop calc_manifest ''tools'' = Some (JBool True)" by (simp add: eval_defs example_defs)
  have h6: "truthy (JBool True)" by simp
  have e1: "[] @ getUrl (Some (baseUrl calc_config)) (headers calc_config) #
              declared_requests (baseUrl calc_config) (headers calc_config) calc_manifest
                (takeWhile (\<lambda>x. x \<noteq> ''tools'') sectionNames) =
            [getUrl (Some ''http://127.0.0.1'') (headers calc_config)]"
    by (simp add: eval_defs example_defs)
  have e2: "combineURLs (baseUrl calc_config) (section_path ''tools'' (JBool True)) =
            ''http://127.0.0.1/tools''"
    by (simp add: eval_defs example_defs)
  have h7': "fetch_failed (manifest_only_client
     [getUrl (Some ''http://127.0.0.1'') (headers calc_config)]
     (getUrl (Some ''http://127.0.0.1/tools'') (headers calc_config)))"
    by (simp add: eval_defs example_defs)
  have h7: "fetch_failed
           (manifest_only_client ([] @ getUrl (Some (baseUrl calc_config)) (headers calc_config) #
                 declared_requests (baseUrl calc_config) (headers calc_config) calc_manifest
                   (takeWhile (\<lambda>x. x \<noteq> ''tools'') sectionNames))
              (getUrl (Some (combineURLs (baseUrl calc_config) (section_path ''tools'' (JBool True))))
                 (headers calc_config)))"
    using h7' by (simp only: e1 e2)
  from initialize_all_or_nothing [OF h1 h2 h3 h4 h5 h6 h7, of "[]"] h1 h5 h7'
  show ?thesis by simp
qed

text \<open>
  C5. In every state that \<open>initializeServerState\<close> returns, and for each of the four
  sections (tools, prompts, resources, resourceTemplates): the section is present if
  and only if its companion URL is present, if and only if the value the manifest gives
  to that capability is truthy.
\<close>

theorem initialize_sections_invariant:
  assumes "initializeServerState c cfg settle log = (Inr st, log')"
  shows "\<exists>m. manifest st = Some m \<and>
           (tools st \<noteq> None) = (toolsUrl st \<noteq> None) \<and>
           (tools st \<noteq> None) = truthy_opt (js_prop m ''tools'') \<and>
           (prompts st \<noteq> None) = (promptsUrl st \<noteq> None) \<and>
           (prompts st \<noteq> None) = truthy_opt (js_prop m ''prompts'') \<and>
           (resources st \<noteq> None) = (resourcesUrl st \<noteq> None) \<and>
           (resources st \<noteq> None) = truthy_opt (js_prop m ''resources'') \<and>
           (resourceTemplates st \<noteq> None) = (resourceTemplatesUrl st \<noteq> None) \<and>
           (resourceTemplates st \<noteq> None) = truthy_opt (js_prop m ''resourceTemplates'')"
proof -
  from initialize_success [OF assms] obtain r0 m ss where
    started: "fst (start_sections c (baseUrl cfg) (headers cfg) m sectionNames
                (log @ [getUrl (Some (baseUrl cfg)) (headers cfg)])) = Inr (map Inr ss)"
    and st: "st = foldl assign_section (initial_state cfg m) ss"
    by blast
  obtain lg where "start_sections c (baseUrl cfg) (headers cfg) m sectionNames
                (log @ [getUrl (Some (baseUrl cfg)) (headers cfg)]) = (Inr (map Inr ss), lg)"
    using started
    by (cases "start_sections c (baseUrl cfg) (headers cfg) m sectionNames
                (log @ [getUrl (Some (baseUrl cfg)) (headers cfg)])") simp
  then have all: "list_all2
      (\<lambda>n p. \<exists>lg. p = fst (fetchManifestSection c (baseUrl cfg) (headers cfg) n (js_prop m n) lg))
      sectionNames (map Inr ss)"
    by (rule start_sections_promises)
  have m: "manifest st = Some m"
    using st foldl_assign_section_keeps [of "initial_state cfg m" ss]
    by (simp add: initial_state_def)
  have t: "(section_data st ''tools'' \<noteq> None) = truthy_opt (js_prop m ''tools'') \<and>
           (section_url st ''tools'' \<noteq> None) = truthy_opt (js_prop m ''tools'')"
    using sections_state [OF all st, of "''tools''"] by (simp add: sectionNames_def)
  have p: "(section_data st ''prompts'' \<noteq> None) = truthy_opt (js_prop m ''prompts'') \<and>
           (section_url st ''prompts'' \<noteq> None) = truthy_opt (js_prop m ''prompts'')"
    using sections_state [OF all st, of "''prompts''"] by (simp add: sectionNames_def)
  have r: "(section_data st ''resources'' \<noteq> None) = truthy_opt (js_prop m ''resources'') \<and>
           (section_url st ''resources'' \<noteq> None) = truthy_opt (js_prop m ''resources'')"
    using sections_state [OF all st, of "''resources''"] by (simp add: sectionNames_def)
  have rt: "(section_data st ''resourceTemplates'' \<noteq> None) =
              truthy_opt (js_prop m ''resourceTemplates'') \<and>
            (section_url st ''resourceTemplates'' \<noteq> None) =
              truthy_opt (js_prop m ''resourceTemplates'')"
    using sections_state [OF all st, of "''resourceTemplates''"] by (simp add: sectionNames_def)
  from m t p r rt show ?thesis
    by (simp add: section_data_def section_url_def)
qed

theorem initialize_sections_invariant_witness:
  "initializeServerState calc_client calc_config [] [] =
     (Inr calc_state,
      [getUrl (Some ''http://127.0.0.1'') (Some [(''Authorization'', ''Bearer token'')]),
       getUrl (Some ''http://127.0.0.1/tools'') (Some [(''Authorization'', ''Bearer token'')])]) \<and>
   manifest calc_state = Some calc_manifest \<and>
   tools calc_state \<noteq> None \<and> toolsUrl calc_state \<noteq> None \<and>
   truthy_opt (js_prop calc_manifest ''tools'') \<and>
   prompts calc_state = None \<and> promptsUrl calc_state = None \<and>
   \<not> truthy_opt (js_prop calc_manifest ''prompts'')"
proof -
  have run: "initializeServerState calc_client calc_config [] [] =
     (Inr calc_state,
      [getUrl (Some ''http://127.0.0.1'') (Some [(''Authorization'', ''Bearer token'')]),
       getUrl (Some ''http://127.0.0.1/tools'') (Some [(''Authorization'', ''Bearer token'')])])"
    by (simp add: initializeServerState_def eval_defs example_defs)
  have m: "manifest calc_state = Some calc_manifest"
    by (simp add: example_defs initial_state_def)
  have tr: "truthy_opt (js_prop calc_manifest ''tools'')"
    "\<not> truthy_opt (js_prop calc_manifest ''prompts'')"
    by (simp_all add: example_defs)
  from initialize_sections_invariant [OF run] m tr
  have "tools calc_state \<noteq> None" "toolsUrl calc_state \<noteq> None"
    "prompts calc_state = None" "promptsUrl calc_state = None"
    by auto
  with run m tr show ?thesis by simp
qed

text \<open>
  C6. \<open>toMCPContent\<close> looks at the \<^verbatim>\<open>Content-Type\<close> header (the empty string when
  it is absent) in a fixed order and the first match decides: a header that contains
  \<^verbatim>\<open>text/plain\<close> gives one text block with the decoded body; otherwise one that
  contains \<^verbatim>\<open>application/json\<close> gives \<^verbatim>\<open>{content: j}\<close> for an array \<open>j\<close>, \<open>j\<close>
  itself for an object, one text block with the string itself for a string, and one text
  block with \<^verbatim>\<open>JSON.stringify(j)\<close> for \<^verbatim>\<open>null\<close>, a boolean or a number; otherwise
  one that starts with \<^verbatim>\<open>image/\<close> gives one image block whose \<^verbatim>\<open>mimeType\<close> is the
  whole header and whose data is the base64 of the bytes; any other header, an absent
  one included, fails with \<open>UnsupportedContentType\<close>.
\<close>

theorem toMCPContent_cases:
  "(str_includes (contentType_of res) ''text/plain'' \<longrightarrow>
      toMCPContent res =
        Inr (JObj [(''content'', JArr [JObj [(''type'', JStr ''text''), (''text'', JStr (res_text res))]])])) \<and>
   (\<not> str_includes (contentType_of res) ''text/plain'' \<and>
    str_includes (contentType_of res) ''application/json'' \<longrightarrow>
      (res_json res = Some (JArr xs) \<longrightarrow> toMCPContent res = Inr (JObj [(''content'', JArr xs)])) \<and>
      (res_json res = Some (JObj kvs) \<longrightarrow> toMCPContent res = Inr (JObj kvs)) \<and>
      (res_json res = Some (JStr s) \<longrightarrow>
         toMCPContent res =
           Inr (JObj [(''content'', JArr [JObj [(''type'', JStr ''text''), (''text'', JStr s)]])])) \<and>
      (res_json res = Some j \<and> (j = JNull \<or> j = JBool b \<or> j = JNum i) \<longrightarrow>
         toMCPContent res =
           Inr (JObj [(''content'', JArr [JObj [(''type'', JStr ''text''),
                                                (''text'', JStr (JSON_stringify j))]])]))) \<and>
   (\<not> str_includes (contentType_of res) ''text/plain'' \<and>
    \<not> str_includes (contentType_of res) ''application/json'' \<and>
    startsWith (contentType_of res) ''image/'' \<longrightarrow>
      toMCPContent res =
        Inr (JObj [(''content'', JArr [JObj
          [(''type'', JStr ''image''),
           (''mimeType'', JStr (contentType_of res)),
           (''data'', JStr (base64 (res_arrayBuffer res)))]])])) \<and>
   (\<not> str_includes (contentType_of res) ''text/plain'' \<and>
    \<not> str_includes (contentType_of res) ''application/json'' \<and>
    \<not> startsWith (contentType_of res) ''image/'' \<longrightarrow>
      toMCPContent res = Inl (UnsupportedContentType (contentType_of res))) \<and>
   (res_contentType res = None \<longrightarrow> toMCPContent res = Inl (UnsupportedContentType []))"
  by (auto simp: toMCPContent_def makeTextContent_def contentType_of_def Let_def)

theorem toMCPContent_cases_witness:
  "str_includes (contentType_of number_response) ''application/json'' \<and>
   \<not> str_includes (contentType_of number_response) ''text/plain'' \<and>
   res_json number_response = Some (JNum ''123'') \<and>
   toMCPContent number_response =
     Inr (JObj [(''content'', JArr [JObj [(''type'', JStr ''text''), (''text'', JStr ''123'')]])]) \<and>
   res_json large_number_response = Some (JNum ''1e+21'') \<and>
   toMCPContent large_number_response =
     Inr (JObj [(''content'', JArr [JObj [(''type'', JStr ''text''), (''text'', JStr ''1e+21'')]])]) \<and>
   startsWith (contentType_of png_response) ''image/'' \<and>
   toMCPContent png_response =
     Inr (JObj [(''content'', JArr [JObj
       [(''type'', JStr ''image''), (''mimeType'', JStr ''image/png''), (''data'', JStr ''SGk='')]])]) \<and>
   res_contentType untyped_response = None \<and>
   toMCPContent untyped_response = Inl (UnsupportedContentType [])"
proof -
  have n1: "str_includes (contentType_of number_response) ''application/json''"
    and n2: "\<not> str_includes (contentType_of number_response) ''text/plain''"
    and n3: "res_json number_response = Some (JNum ''123'')"
    and n4: "JSON_stringify (JNum ''123'') = ''123''"
    by (simp_all add: eval_defs example_defs)
  have l1: "str_includes (contentType_of large_number_response) ''application/json''"
    and l2: "\<not> str_includes (contentType_of large_number_response) ''text/plain''"
    and l3: "res_json large_number_response = Some (JNum ''1e+21'')"
    and l4: "JSON_stringify (JNum ''1e+21'') = ''1e+21''"
    by (simp_all add: eval_defs example_defs)
  have p1: "startsWith (contentType_of png_response) ''image/''"
    and p2: "\<not> str_includes (contentType_of png_response) ''text/plain''"
    and p3: "\<not> str_includes (contentType_of png_response) ''application/json''"
    and p4: "contentType_of png_response = ''image/png''"
    and p5: "base64 (res_arrayBuffer png_response) = ''SGk=''"
    by (simp_all add: eval_defs example_defs)
  have u1: "res_contentType untyped_response = None"
    by (simp add: example_defs)
  from toMCPContent_cases [where res = number_response and j = "JNum ''123''" and i = "''123''"
      and xs = "[]" and kvs = "[]" and s = "[]" and b = False]
    n1 n2 n3 n4
  have a: "toMCPContent number_response =
     Inr (JObj [(''content'', JArr [JObj [(''type'', JStr ''text''), (''text'', JStr ''123'')]])])"
    by simp
  from toMCPContent_cases [where res = large_number_response and j = "JNum ''1e+21''"
      and i = "''1e+21''" and xs = "[]" and kvs = "[]" and s = "[]" and b = False]
    l1 l2 l3 l4
  have l: "toMCPContent large_number_response =
     Inr (JObj [(''content'', JArr [JObj [(''type'', JStr ''text''), (''text'', JStr ''1e+21'')]])])"
    by simp
  from toMCPContent_cases [where res = png_response and j = JNull and i = "''0''"
      and xs = "[]" and kvs = "[]" and s = "[]" and b = False] p1 p2 p3 p4 p5
  have b: "toMCPContent png_response =
     Inr (JObj [(''content'', JArr [JObj
       [(''type'', JStr ''image''), (''mimeType'', JStr ''image/png''), (''data'', JStr ''SGk='')]])])"
    by simp
  from toMCPContent_cases [where res = untyped_response and j = JNull and i = "''0''"
      and xs = "[]" and kvs = "[]" and s = "[]" and b = False] u1
  have c: "toMCPContent untyped_response = Inl (UnsupportedContentType [])"
    by simp
  from n1 n2 n3 l3 p1 u1 a l b c show ?thesis by simp
qed

text \<open>
  C8, as the claim states it, fails for one string: when the manifest value is the
  empty string, no section is fetched at all. For a manifest with \<^verbatim>\<open>tools: ""\<close> the
  only request of the initializer is the one for the manifest, and the state has neither
  tools nor a tools URL.
\<close>

theorem empty_string_path_not_fetched:
  "initializeServerState empty_tools_client calc_config [] [] =
     (Inr (initial_state calc_config empty_tools_manifest),
      [getUrl (Some ''http://127.0.0.1'') (Some [(''Authorization'', ''Bearer token'')])]) \<and>
   js_prop empty_tools_manifest ''tools'' = Some (JStr []) \<and>
   tools (initial_state calc_config empty_tools_manifest) = None \<and>
   toolsUrl (initial_state calc_config empty_tools_manifest) = None"
  by (simp add: initializeServerState_def eval_defs example_defs)

text \<open>
  C8, amended. Once the manifest is fetched and parsed: a capability that the manifest
  declares with the value \<^verbatim>\<open>true\<close> is requested, after the manifest, at the base URL
  joined with the capability name for tools, prompts and resources, and with
  \<^verbatim>\<open>resource_templates\<close> for resourceTemplates; a capability whose manifest value is
  a non-empty string is requested at the base URL joined with that string. When
  initialization succeeds, the companion URL of the section is that URL.
\<close>

theorem section_default_paths:
  assumes "c log (getUrl (Some (baseUrl cfg)) (headers cfg)) = Inr r0"
    and "res_ok r0" and "res_json r0 = Some m"
  shows
   "(js_prop m ''tools'' = Some (JBool True) \<longrightarrow>
       getUrl (Some (combineURLs (baseUrl cfg) ''tools'')) (headers cfg)
         \<in> set (drop (Suc (length log)) (snd (initializeServerState c cfg settle log))) \<and>
       (\<forall>st. fst (initializeServerState c cfg settle log) = Inr st \<longrightarrow>
          toolsUrl st = Some (combineURLs (baseUrl cfg) ''tools''))) \<and>
    (js_prop m ''prompts'' = Some (JBool True) \<longrightarrow>
       getUrl (Some (combineURLs (baseUrl cfg) ''prompts'')) (headers cfg)
         \<in> set (drop (Suc (length log)) (snd (initializeServerState c cfg settle log))) \<and>
       (\<forall>st. fst (initializeServerState c cfg settle log) = Inr st \<longrightarrow>
          promptsUrl st = Some (combineURLs (baseUrl cfg) ''prompts''))) \<and>
    (js_prop m ''resources'' = Some (JBool True) \<longrightarrow>
       getUrl (Some (combineURLs (baseUrl cfg) ''resources'')) (headers cfg)
         \<in> set (drop (Suc (length log)) (snd (initializeServerState c cfg settle log))) \<and>
       (\<forall>st. fst (initializeServerState c cfg settle log) = Inr st \<longrightarrow>
          resourcesUrl st = Some (combineURLs (baseUrl cfg) ''resources''))) \<and>
    (js_prop m ''resourceTemplates'' = Some (JBool True) \<longrightarrow>
       getUrl (Some (combineURLs (baseUrl cfg) ''resource_templates'')) (headers cfg)
         \<in> set (drop (Suc (length log)) (snd (initializeServerState c cfg settle log))) \<and>
       (\<forall>st. fst (initializeServerState c cfg settle log) = Inr st \<longrightarrow>
          resourceTemplatesUrl st = Some (combineURLs (baseUrl cfg) ''resource_templates''))) \<and>
    (n \<in> set sectionNames \<and> js_prop m n = Some (JStr s) \<and> s \<noteq> [] \<longrightarrow>
       getUrl (Some (combineURLs (baseUrl cfg) s)) (headers cfg)
         \<in> set (drop (Suc (length log)) (snd (initializeServerState c cfg settle log))) \<and>
       (\<forall>st. fst (initializeServerState c cfg settle log) = Inr st \<longrightarrow>
          section_url st n = Some (combineURLs (baseUrl cfg) s)))"
proof -
  let ?init = "initializeServerState c cfg settle log"
  have general:
    "getUrl (Some (combineURLs (baseUrl cfg) (section_path k v))) (headers cfg)
       \<in> set (drop (Suc (length log)) (snd ?init)) \<and>
     (\<forall>st. fst ?init = Inr st \<longrightarrow>
        section_url st k = Some (combineURLs (baseUrl cfg) (section_path k v)))"
    if k: "k \<in> set sectionNames" and v: "js_prop m k = Some v" and t: "truthy v" for k v
  proof (intro conjI allI impI)
    from v have nn: "m \<noteq> JNull" by auto
    have "snd ?init = log @ getUrl (Some (baseUrl cfg)) (headers cfg) #
             declared_requests (baseUrl cfg) (headers cfg) m sectionNames"
      by (rule initialize_log [where c = c and log = log and cfg = cfg, OF assms nn])
    then have "drop (Suc (length log)) (snd ?init) =
               declared_requests (baseUrl cfg) (headers cfg) m sectionNames"
      by simp
    then show "getUrl (Some (combineURLs (baseUrl cfg) (section_path k v))) (headers cfg)
       \<in> set (drop (Suc (length log)) (snd ?init))"
      using declared_requests_mem [OF k v t] by simp
  next
    fix st
    assume "fst ?init = Inr st"
    then have run: "?init = (Inr st, snd ?init)"
      by (cases ?init) simp
    from initialize_success [OF run] assms obtain ss where
      started: "fst (start_sections c (baseUrl cfg) (headers cfg) m sectionNames
                  (log @ [getUrl (Some (baseUrl cfg)) (headers cfg)])) = Inr (map Inr ss)"
      and st: "st = foldl assign_section (initial_state cfg m) ss"
      by auto
    obtain lg where "start_sections c (baseUrl cfg) (headers cfg) m sectionNames
                  (log @ [getUrl (Some (baseUrl cfg)) (headers cfg)]) = (Inr (map Inr ss), lg)"
      using started
      by (cases "start_sections c (baseUrl cfg) (headers cfg) m sectionNames
                  (log @ [getUrl (Some (baseUrl cfg)) (headers cfg)])") simp
    then have all: "list_all2
        (\<lambda>n p. \<exists>lg. p = fst (fetchManifestSection c (baseUrl cfg) (headers cfg) n (js_prop m n) lg))
        sectionNames (map Inr ss)"
      by (rule start_sections_promises)
    from sections_state [OF all st k] v t
    show "section_url st k = Some (combineURLs (baseUrl cfg) (section_path k v))"
      by blast
  qed
  have g1: "js_prop m ''tools'' = Some (JBool True) \<Longrightarrow>
       getUrl (Some (combineURLs (baseUrl cfg) ''tools'')) (headers cfg)
         \<in> set (drop (Suc (length log)) (snd ?init)) \<and>
       (\<forall>st. fst ?init = Inr st \<longrightarrow> toolsUrl st = Some (combineURLs (baseUrl cfg) ''tools''))"
    using general [of "''tools''" "JBool True"]
    by (simp add: sectionNames_def section_path_def section_url_def)
  have g2: "js_prop m ''prompts'' = Some (JBool True) \<Longrightarrow>
       getUrl (Some (combineURLs (baseUrl cfg) ''prompts'')) (headers cfg)
         \<in> set (drop (Suc (length log)) (snd ?init)) \<and>
       (\<forall>st. fst ?init = Inr st \<longrightarrow> promptsUrl st = Some (combineURLs (baseUrl cfg) ''prompts''))"
    using general [of "''prompts''" "JBool True"]
    by (simp add: sectionNames_def section_path_def section_url_def)
  have g3: "js_prop m ''resources'' = Some (JBool True) \<Longrightarrow>
       getUrl (Some (combineURLs (baseUrl cfg) ''resources'')) (headers cfg)
         \<in> set (drop (Suc (length log)) (snd ?init)) \<and>
       (\<forall>st. fst ?init = Inr st \<longrightarrow>
          resourcesUrl st = Some (combineURLs (baseUrl cfg) ''resources''))"
    using general [of "''resources''" "JBool True"]
    by (simp add: sectionNames_def section_path_def section_url_def)
  have g4: "js_prop m ''resourceTemplates'' = Some (JBool True) \<Longrightarrow>
       getUrl (Some (combineURLs (baseUrl cfg) ''resource_templates'')) (headers cfg)
         \<in> set (drop (Suc (length log)) (snd ?init)) \<and>
       (\<forall>st. fst ?init = Inr st \<longrightarrow>
          resourceTemplatesUrl st = Some (combineURLs (baseUrl cfg) ''resource_templates''))"
    using general [of "''resourceTemplates''" "JBool True"]
    by (simp add: sectionNames_def section_path_def section_url_def)
  have g5: "n \<in> set sectionNames \<Longrightarrow> js_prop m n = Some (JStr s) \<Longrightarrow> s \<noteq> [] \<Longrightarrow>
       getUrl (Some (combineURLs (baseUrl cfg) s)) (headers cfg)
         \<in> set (drop (Suc (length log)) (snd ?init)) \<and>
       (\<forall>st. fst ?init = Inr st \<longrightarrow> section_url st n = Some (combineURLs (baseUrl cfg) s))"
    using general [of n "JStr s"] by (simp add: section_path_def)
  from g1 g2 g3 g4 g5 show ?thesis by blast
qed

theorem section_default_paths_witness:
  "templates_client [] (getUrl (Some (baseUrl calc_config)) (headers calc_config)) =
     Inr (createMockResponse (Some ''application/json'') templates_manifest 200 ''OK'') \<and>
   js_prop templates_manifest ''resourceTemplates'' = Some (JBool True) \<and>
   js_prop templates_manifest ''prompts'' = Some (JStr ''custom-prompts'') \<and>
   getUrl (Some ''http://127.0.0.1/resource_templates'') (headers calc_config)
     \<in> set (drop (Suc (length ([] :: request list)))
              (snd (initializeServerState templates_client calc_config [] []))) \<and>
   getUrl (Some ''http://127.0.0.1/custom-prompts'') (headers calc_config)
     \<in> set (drop (Suc (length ([] :: request list)))
              (snd (initializeServerState templates_client calc_config [] [])))"
proof -
  let ?r0 = "createMockResponse (Some ''application/json'') templates_manifest 200 ''OK''"
  have h1: "templates_client [] (getUrl (Some (baseUrl calc_config)) (headers calc_config)) = Inr ?r0"
    by (simp add: eval_defs example_defs)
  have h2: "res_ok ?r0" by (simp add: eval_defs)
  have h3: "res_json ?r0 = Some templates_manifest" by (simp add: eval_defs)
  have p1: "js_prop templates_manifest ''resourceTemplates'' = Some (JBool True)"
    and p2: "js_prop templates_manifest ''prompts'' = Some (JStr ''custom-prompts'')"
    by (simp_all add: example_defs)
  have n: "''prompts'' \<in> set sectionNames" by (simp add: sectionNames_def)
  have e1: "combineURLs (baseUrl calc_config) ''resource_templates'' =
            ''http://127.0.0.1/resource_templates''"
    and e2: "combineURLs (baseUrl calc_config) ''custom-prompts'' = ''http://127.0.0.1/custom-prompts''"
    by (simp_all add: eval_defs example_defs)
  from section_default_paths [where c = templates_client and log = "[]" and cfg = calc_config
      and n = "''prompts''" and s = "''custom-prompts''" and settle = "[]", OF h1 h2 h3] p1 p2 n
  have "getUrl (Some (combineURLs (baseUrl calc_config) ''resource_templates'')) (headers calc_config)
     \<in> set (drop (Suc (length ([] :: request list)))
              (snd (initializeServerState templates_client calc_config [] [])))"
    and "getUrl (Some (combineURLs (baseUrl calc_config) ''custom-prompts'')) (headers calc_config)
     \<in> set (drop (Suc (length ([] :: request list)))
              (snd (initializeServerState templates_client calc_config [] [])))"
    by simp_all
  with h1 p1 p2 e1 e2 show ?thesis by simp
qed

text \<open>
  C9. When the tools (the prompts, the resources) of the state are a list of entries
  none of which has the requested name (uri), \<open>mcpCallTool\<close> (\<open>mcpGetPrompt\<close>,
  \<open>mcpReadResource\<close>) fails with \<open>UnknownTool\<close> (\<open>UnknownPrompt\<close>,
  \<open>UnknownResource\<close>) and the list of issued requests is unchanged: the client is not
  called.
\<close>

theorem unknown_name_no_request:
  "(tools st = Some (JArr ts) \<and>
    (\<forall>t\<in>set ts. t \<noteq> JNull \<and> js_prop t ''name'' \<noteq> Some (JStr x)) \<longrightarrow>
      mcpCallTool c st x a log = (Inl (UnknownTool x), log)) \<and>
   (prompts st = Some (JArr ps) \<and>
    (\<forall>t\<in>set ps. t \<noteq> JNull \<and> js_prop t ''name'' \<noteq> Some (JStr x)) \<longrightarrow>
      mcpGetPrompt c st x a log = (Inl (UnknownPrompt x), log)) \<and>
   (resources st = Some (JArr rs) \<and>
    (\<forall>t\<in>set rs. t \<noteq> JNull \<and> js_prop t ''uri'' \<noteq> Some (JStr x)) \<longrightarrow>
      mcpReadResource c st x a log = (Inl (UnknownResource x), log))"
  by (simp add: mcpCallTool_def mcpGetPrompt_def mcpReadResource_def find_by_none)

theorem unknown_name_no_request_witness:
  "mcpCallTool calc_client calc_state ''unknownTool'' None [] = (Inl (UnknownTool ''unknownTool''), []) \<and>
   mcpGetPrompt docs_client docs_state ''unknown'' None [] = (Inl (UnknownPrompt ''unknown''), []) \<and>
   mcpReadResource docs_client docs_state ''file://unknown'' None [] =
     (Inl (UnknownResource ''file://unknown''), [])"
proof -
  have t: "tools calc_state = Some calc_tools"
    by (simp add: calc_state_def)
  have t': "calc_tools = JArr [JObj [(''name'', JStr ''add''), (''description'', JStr ''Add two numbers''),
                 (''inputSchema'', JObj [(''type'', JStr ''object'')])]]"
    by (simp add: calc_tools_def)
  have p: "prompts docs_state =
             Some (JArr [JObj [(''name'', JStr ''greet''), (''description'', JStr ''Greets'')]])"
    by (simp add: docs_state_def)
  have r: "resources docs_state = Some (JArr
        [JObj [(''uri'', JStr ''file://readme.txt''), (''name'', JStr ''readme.txt'')],
         JObj [(''uri'', JStr ''file://notes.txt''), (''name'', JStr ''notes.txt''),
               (''href'', JStr ''notes'')]])"
    by (simp add: docs_state_def)
  from unknown_name_no_request [where st = calc_state and x = "''unknownTool''" and c = calc_client
      and a = None and log = "[]"
      and ts = "[JObj [(''name'', JStr ''add''), (''description'', JStr ''Add two numbers''),
                 (''inputSchema'', JObj [(''type'', JStr ''object'')])]]"] t t'
  have a: "mcpCallTool calc_client calc_state ''unknownTool'' None [] =
             (Inl (UnknownTool ''unknownTool''), [])"
    by simp
  from unknown_name_no_request [where st = docs_state and x = "''unknown''" and c = docs_client
      and a = None and log = "[]"
      and ps = "[JObj [(''name'', JStr ''greet''), (''description'', JStr ''Greets'')]]"] p
  have b: "mcpGetPrompt docs_client docs_state ''unknown'' None [] =
             (Inl (UnknownPrompt ''unknown''), [])"
    by simp
  from unknown_name_no_request [where st = docs_state and x = "''file://unknown''"
      and c = docs_client and a = None and log = "[]"
      and rs = "[JObj [(''uri'', JStr ''file://readme.txt''), (''name'', JStr ''readme.txt'')],
         JObj [(''uri'', JStr ''file://notes.txt''), (''name'', JStr ''notes.txt''),
               (''href'', JStr ''notes'')]]"] r
  have c: "mcpReadResource docs_client docs_state ''file://unknown'' None [] =
             (Inl (UnknownResource ''file://unknown''), [])"
    by simp
  from a b c show ?thesis by simp
qed

text \<open>
  C10. A capability whose manifest value is the empty string is treated exactly as an
  absent one and as one with the value \<^verbatim>\<open>false\<close>: the calls the initializer makes for
  the sections, and the requests they issue, are the same as for the manifest without
  that field and as for the manifest with that field set to \<^verbatim>\<open>false\<close>. After the
  manifest, the initializer issues the requests of the other sections only, and a state
  it returns has neither the section nor its companion URL.
\<close>

theorem empty_string_capability_is_absent:
  assumes "n \<in> set sectionNames" and "js_prop m n = Some (JStr [])"
  shows
   "start_sections c base hs m sectionNames lg =
      start_sections c base hs (without_field n m) sectionNames lg \<and>
    start_sections c base hs m sectionNames lg =
      start_sections c base hs (with_field n (JBool False) m) sectionNames lg \<and>
    (c log (getUrl (Some (baseUrl cfg)) (headers cfg)) = Inr r0 \<and> res_ok r0 \<and>
     res_json r0 = Some m \<longrightarrow>
       snd (initializeServerState c cfg settle log) =
         log @ getUrl (Some (baseUrl cfg)) (headers cfg) #
           declared_requests (baseUrl cfg) (headers cfg) m (removeAll n sectionNames) \<and>
       (\<forall>st. fst (initializeServerState c cfg settle log) = Inr st \<longrightarrow>
          section_data st n = None \<and> section_url st n = None))"
proof (intro conjI impI allI; (elim conjE)?)
  from assms(2) obtain kvs where m: "m = JObj kvs" and kv: "map_of kvs n = Some (JStr [])"
    by (cases m) auto
  show "start_sections c base hs m sectionNames lg =
      start_sections c base hs (without_field n m) sectionNames lg"
  proof (rule start_sections_cong [symmetric])
    show "without_field n m \<noteq> JNull" "m \<noteq> JNull" using m by simp_all
    show "js_prop (without_field n m) k = js_prop m k \<or>
          (\<not> truthy_opt (js_prop m k) \<and> \<not> truthy_opt (js_prop (without_field n m) k))" for k
      using kv unfolding m by (simp add: map_of_filter_key)
  qed
  show "start_sections c base hs m sectionNames lg =
      start_sections c base hs (with_field n (JBool False) m) sectionNames lg"
  proof (rule start_sections_cong [symmetric])
    show "with_field n (JBool False) m \<noteq> JNull" "m \<noteq> JNull" using m by simp_all
    show "js_prop (with_field n (JBool False) m) k = js_prop m k \<or>
          (\<not> truthy_opt (js_prop m k) \<and> \<not> truthy_opt (js_prop (with_field n (JBool False) m) k))"
      for k
      using kv unfolding m by (simp add: map_of_map_key)
  qed
next
  assume ok: "c log (getUrl (Some (baseUrl cfg)) (headers cfg)) = Inr r0" "res_ok r0"
    "res_json r0 = Some m"
  from assms(2) have nn: "m \<noteq> JNull" by auto
  have falsy: "\<not> truthy_opt (js_prop m n)" using assms(2) by simp
  show "snd (initializeServerState c cfg settle log) =
         log @ getUrl (Some (baseUrl cfg)) (headers cfg) #
           declared_requests (baseUrl cfg) (headers cfg) m (removeAll n sectionNames)"
    using initialize_log [where c = c and log = log and cfg = cfg and settle = settle, OF ok nn]
      declared_requests_removeAll [OF falsy]
    by simp
  fix st
  assume "fst (initializeServerState c cfg settle log) = Inr st"
  then have run: "initializeServerState c cfg settle log =
                    (Inr st, snd (initializeServerState c cfg settle log))"
    by (cases "initializeServerState c cfg settle log") simp
  from initialize_success [OF run] ok obtain ss where
    started: "fst (start_sections c (baseUrl cfg) (headers cfg) m sectionNames
                (log @ [getUrl (Some (baseUrl cfg)) (headers cfg)])) = Inr (map Inr ss)"
    and st: "st = foldl assign_section (initial_state cfg m) ss"
    by auto
  obtain l where "start_sections c (baseUrl cfg) (headers cfg) m sectionNames
                (log @ [getUrl (Some (baseUrl cfg)) (headers cfg)]) = (Inr (map Inr ss), l)"
    using started
    by (cases "start_sections c (baseUrl cfg) (headers cfg) m sectionNames
                (log @ [getUrl (Some (baseUrl cfg)) (headers cfg)])") simp
  then have all: "list_all2
      (\<lambda>n p. \<exists>lg. p = fst (fetchManifestSection c (baseUrl cfg) (headers cfg) n (js_prop m n) lg))
      sectionNames (map Inr ss)"
    by (rule start_sections_promises)
  from sections_state [OF all st assms(1)] falsy
  show "section_data st n = None" and "section_url st n = None"
    by simp_all
qed

theorem empty_string_capability_is_absent_witness:
  "js_prop empty_tools_manifest ''tools'' = Some (JStr []) \<and>
   empty_tools_client [] (getUrl (Some (baseUrl calc_config)) (headers calc_config)) =
     Inr (createMockResponse (Some ''application/json'') empty_tools_manifest 200 ''OK'') \<and>
   snd (initializeServerState empty_tools_client calc_config [] []) =
     [getUrl (Some ''http://127.0.0.1'') (Some [(''Authorization'', ''Bearer token'')])] \<and>
   start_sections empty_tools_client ''http://127.0.0.1'' None empty_tools_manifest sectionNames [] =
     start_sections empty_tools_client ''http://127.0.0.1'' None
       (JObj [(''name'', JStr ''calculator''), (''version'', JStr ''1.0.0'')]) sectionNames []"
proof -
  let ?r0 = "createMockResponse (Some ''application/json'') empty_tools_manifest 200 ''OK''"
  have n: "''tools'' \<in> set sectionNames" by (simp add: sectionNames_def)
  have p: "js_prop empty_tools_manifest ''tools'' = Some (JStr [])"
    by (simp add: example_defs)
  have h1: "empty_tools_client [] (getUrl (Some (baseUrl calc_config)) (headers calc_config)) = Inr ?r0"
    by (simp add: eval_defs example_defs)
  have h2: "res_ok ?r0" by (simp add: eval_defs)
  have h3: "res_json ?r0 = Some empty_tools_manifest" by (simp add: eval_defs)
  have e1: "[] @ getUrl (Some (baseUrl calc_config)) (headers calc_config) #
              declared_requests (baseUrl calc_config) (headers calc_config) empty_tools_manifest
                (removeAll ''tools'' sectionNames) =
            [getUrl (Some ''http://127.0.0.1'') (Some [(''Authorization'', ''Bearer token'')])]"
    by (simp add: eval_defs example_defs)
  have e2: "without_field ''tools'' empty_tools_manifest =
            JObj [(''name'', JStr ''calculator''), (''version'', JStr ''1.0.0'')]"
    by (simp add: example_defs)
  from empty_string_capability_is_absent [OF n p, where c = empty_tools_client
      and base = "''http://127.0.0.1''" and hs = None and lg = "[]" and log = "[]"
      and cfg = calc_config and ?r0.0 = ?r0 and settle = "[]"] h1 h2 h3
  have "start_sections empty_tools_client ''http://127.0.0.1'' None empty_tools_manifest sectionNames [] =
          start_sections empty_tools_client ''http://127.0.0.1'' None
            (without_field ''tools'' empty_tools_manifest) sectionNames []"
    and "snd (initializeServerState empty_tools_client calc_config [] []) =
         [] @ getUrl (Some (baseUrl calc_config)) (headers calc_config) #
           declared_requests (baseUrl calc_config) (headers calc_config) empty_tools_manifest
             (removeAll ''tools'' sectionNames)"
    by blast+
  with p h1 e1 e2 show ?thesis by simp
qed


end
